theory Spec2Isabelle
  imports Complex_Main
begin

section \<open>Values and collaborators of the scene\<close>

text \<open>
  The development embeds the game logic of \<^verbatim>\<open>src/javascripts/scene.js\<close> (class
  \<^verbatim>\<open>Scene\<close>): the match state machine, the reset-ball watchdog, the restart and
  countdown handshakes, the reception of Hit and Miss messages, the send-side slowdown
  and the paddle target computation. JavaScript numbers are modelled as \<^typ>\<open>real\<close>
  (no rounding), the four counters of the score as \<^typ>\<open>int\<close>. Rendering, sound and
  HUD calls change nothing that the game logic reads and are left out.
\<close>

record Vector3 =
  vec_x :: real
  vec_y :: real
  vec_z :: real

type_synonym Quaternion = "real \<times> real \<times> real \<times> real"

text \<open>\<^verbatim>\<open>new Vector3().subVectors(a, b)\<close>, \<^verbatim>\<open>addVectors\<close>, \<^verbatim>\<open>lerpVectors(a, b, alpha)\<close>
  and \<^verbatim>\<open>length()\<close> of three.js.\<close>

definition subVectors :: "Vector3 \<Rightarrow> Vector3 \<Rightarrow> Vector3" where
  "subVectors a b =
     \<lparr>vec_x = vec_x a - vec_x b, vec_y = vec_y a - vec_y b, vec_z = vec_z a - vec_z b\<rparr>"

definition addVectors :: "Vector3 \<Rightarrow> Vector3 \<Rightarrow> Vector3" where
  "addVectors a b =
     \<lparr>vec_x = vec_x a + vec_x b, vec_y = vec_y a + vec_y b, vec_z = vec_z a + vec_z b\<rparr>"

definition lerpVectors :: "Vector3 \<Rightarrow> Vector3 \<Rightarrow> real \<Rightarrow> Vector3" where
  "lerpVectors a b alpha =
     \<lparr>vec_x = vec_x a + (vec_x b - vec_x a) * alpha,
      vec_y = vec_y a + (vec_y b - vec_y a) * alpha,
      vec_z = vec_z a + (vec_z b - vec_z a) * alpha\<rparr>"

definition length_v :: "Vector3 \<Rightarrow> real" where
  "length_v a = sqrt (vec_x a * vec_x a + vec_y a * vec_y a + vec_z a * vec_z a)"

subsection \<open>Numbers that may leave the finite range\<close>

text \<open>
  \<^verbatim>\<open>slowdownBall\<close> divides by a distance and by a speed that can be zero. JavaScript
  does not raise there: the quotient is an infinity or \<^verbatim>\<open>NaN\<close>, and it is stored.
  \<^verbatim>\<open>physicsTimeStep\<close> therefore ranges over the type below. Zero is the positive
  zero throughout (every divisor of the source is a vector length).
\<close>

datatype jsnum = Num real | NaN | PosInfinity | NegInfinity

fun js_add :: "jsnum \<Rightarrow> jsnum \<Rightarrow> jsnum" where
  "js_add (Num a) (Num b) = Num (a + b)"
| "js_add NaN _ = NaN"
| "js_add _ NaN = NaN"
| "js_add PosInfinity NegInfinity = NaN"
| "js_add NegInfinity PosInfinity = NaN"
| "js_add PosInfinity _ = PosInfinity"
| "js_add NegInfinity _ = NegInfinity"
| "js_add (Num a) b = b"

definition js_sign :: "real \<Rightarrow> jsnum \<Rightarrow> jsnum" where
  "js_sign a i =
     (if a = 0 then NaN
      else if 0 < a then i
      else (case i of PosInfinity \<Rightarrow> NegInfinity | NegInfinity \<Rightarrow> PosInfinity | n \<Rightarrow> n))"

fun js_mul :: "jsnum \<Rightarrow> jsnum \<Rightarrow> jsnum" where
  "js_mul (Num a) (Num b) = Num (a * b)"
| "js_mul NaN _ = NaN"
| "js_mul _ NaN = NaN"
| "js_mul (Num a) b = js_sign a b"
| "js_mul a (Num b) = js_sign b a"
| "js_mul PosInfinity b = b"
| "js_mul NegInfinity PosInfinity = NegInfinity"
| "js_mul NegInfinity NegInfinity = PosInfinity"

fun js_div :: "jsnum \<Rightarrow> jsnum \<Rightarrow> jsnum" where
  "js_div (Num a) (Num b) = (if b = 0 then js_sign a PosInfinity else Num (a / b))"
| "js_div NaN _ = NaN"
| "js_div _ NaN = NaN"
| "js_div (Num a) _ = Num 0"
| "js_div a (Num b) = (if b < 0 then js_sign (- 1) a else a)"
| "js_div PosInfinity PosInfinity = NaN"
| "js_div PosInfinity NegInfinity = NaN"
| "js_div NegInfinity PosInfinity = NaN"
| "js_div NegInfinity NegInfinity = NaN"

subsection \<open>Constants of the game\<close>

text \<open>
  Modelled from the spec: \<^verbatim>\<open>constants.js\<close> (\<^verbatim>\<open>STATE\<close>, \<^verbatim>\<open>MODE\<close>, \<^verbatim>\<open>EVENT\<close>,
  \<^verbatim>\<open>CONTROLMODE\<close>, \<^verbatim>\<open>INITIAL_CONFIG\<close>) is not part of the sources. The states are
  the four the spec names; modes, events and control modes are the members that
  \<^verbatim>\<open>scene.js\<close> uses. The values of \<^verbatim>\<open>INITIAL_CONFIG\<close> are parameters.
\<close>

datatype STATE = MENU | COUNTDOWN | PLAYING | GAME_OVER

datatype MODE = SINGLEPLAYER | MULTIPLAYER

datatype CONTROLMODE = MOUSE | VR

datatype EVENT = EVENT_GAME_OVER | EVENT_RESTART_GAME

record Config =
  mode :: MODE
  state :: STATE
  startLives :: int
  POINTS_FOR_WIN :: int
  tableWidth :: real
  tableDepth :: real
  tableHeight :: real
  tablePositionZ :: real

record Score =
  self :: int
  opponent :: int
  lives :: int
  highest :: int

subsection \<open>Helpers\<close>

text \<open>
  Modelled from the spec: \<^verbatim>\<open>util/helpers.js\<close> (\<^verbatim>\<open>cap\<close>, \<^verbatim>\<open>mirrorPosition\<close>,
  \<^verbatim>\<open>mirrorVelocity\<close>) is not part of the sources. The spec: mirroring reflects a
  position across the table's center plane, negating x and reflecting z about the net
  axis, and inverts the x and z components of a velocity; it is an involution.
  \<^verbatim>\<open>cap\<close> clamps a value between two bounds; \<^verbatim>\<open>scene.js\<close> passes the bounds in
  either order (\<^verbatim>\<open>cap(x, tableWidth, -tableWidth)\<close> and
  \<^verbatim>\<open>cap(-pos.x, -Math.PI / 2, Math.PI / 2)\<close>), so the clamp is to the interval
  that the two bounds span.
\<close>

definition cap :: "real \<Rightarrow> real \<Rightarrow> real \<Rightarrow> real" where
  "cap v cap1 cap2 = max (min cap1 cap2) (min (max cap1 cap2) v)"

definition mirrorPosition :: "Vector3 \<Rightarrow> real \<Rightarrow> Vector3" where
  "mirrorPosition pos xAxis =
     \<lparr>vec_x = - vec_x pos, vec_y = vec_y pos, vec_z = vec_z pos - (vec_z pos - xAxis) * 2\<rparr>"

definition mirrorVelocity :: "Vector3 \<Rightarrow> Vector3" where
  "mirrorVelocity vel = \<lparr>vec_x = - vec_x vel, vec_y = vec_y vel, vec_z = - vec_z vel\<rparr>"

subsection \<open>Exceptions\<close>

text \<open>
  A handler that reads a property of \<^verbatim>\<open>null\<close> (no ball has been added yet) throws
  a \<^verbatim>\<open>TypeError\<close>: the statements after it do not run, the assignments before it
  stay. An outcome carries the scene as it is when the handler is left.
\<close>

datatype 'a outcome = Returned 'a | Threw 'a

definition state_of :: "'a outcome \<Rightarrow> 'a" where
  "state_of r = (case r of Returned s \<Rightarrow> s | Threw s \<Rightarrow> s)"

definition returned :: "'a outcome \<Rightarrow> bool" where
  "returned r = (case r of Returned s \<Rightarrow> True | Threw s \<Rightarrow> False)"

definition andThen :: "'a outcome \<Rightarrow> ('a \<Rightarrow> 'a outcome) \<Rightarrow> 'a outcome" where
  "andThen r f = (case r of Returned s \<Rightarrow> f s | Threw s \<Rightarrow> Threw s)"

subsection \<open>Physics world, meshes, scheduler, network channel\<close>

record Body =
  position :: Vector3
  velocity :: Vector3
  angularVelocity :: Vector3
  quaternion :: Quaternion

record Mesh =
  mesh_position :: Vector3
  mesh_quaternion :: Quaternion
  visible :: bool

text \<open>
  Modelled from the spec: \<^verbatim>\<open>physics.js\<close> is not part of the sources. The spec lists what
  the scene consumes: \<^verbatim>\<open>addBall\<close>, \<^verbatim>\<open>initBallPosition\<close> (the ball is respawned at
  its initial position), \<^verbatim>\<open>increaseSpeed\<close>, \<^verbatim>\<open>onBallPaddleCollision\<close>, and the
  rigid body of the ball with position, velocity and quaternion. What these compute is
  a parameter: \<open>newBody\<close>, \<open>respawn\<close>, \<open>faster\<close> and \<open>bounce\<close>. A call that needs
  the body of the ball while there is none throws.
\<close>

record Physics =
  physics_ball :: "Body option"
  speed :: real
  newBody :: "MODE \<Rightarrow> Body"
  respawn :: "MODE \<Rightarrow> Body \<Rightarrow> Body"
  faster :: "real \<Rightarrow> real"
  bounce :: "Body \<Rightarrow> Mesh \<Rightarrow> Body"

definition physics_addBall :: "Physics \<Rightarrow> MODE \<Rightarrow> Physics" where
  "physics_addBall p m = p\<lparr>physics_ball := Some (newBody p m)\<rparr>"

definition physics_initBallPosition :: "Physics \<Rightarrow> MODE \<Rightarrow> Physics outcome" where
  "physics_initBallPosition p m =
     (case physics_ball p of
        None \<Rightarrow> Threw p
      | Some b \<Rightarrow> Returned (p\<lparr>physics_ball := Some (respawn p m b)\<rparr>))"

definition physics_increaseSpeed :: "Physics \<Rightarrow> Physics" where
  "physics_increaseSpeed p = p\<lparr>speed := faster p (speed p)\<rparr>"

definition physics_onBallPaddleCollision :: "Physics \<Rightarrow> Mesh \<Rightarrow> Physics outcome" where
  "physics_onBallPaddleCollision p target =
     (case physics_ball p of
        None \<Rightarrow> Threw p
      | Some b \<Rightarrow> Returned (p\<lparr>physics_ball := Some (bounce p b target)\<rparr>))"

text \<open>
  Modelled from the spec: \<^verbatim>\<open>util/time.js\<close> is not part of the sources. The spec: the
  scheduler provides cancellable timers, each scheduled task has a unique handle.
  \<open>timeouts\<close> holds the pending one-shot timers as handle and delay (the only callback
  that \<^verbatim>\<open>scene.js\<close> schedules with \<^verbatim>\<open>setTimeout\<close> is \<^verbatim>\<open>resetTimeoutEnded\<close>);
  \<open>intervals\<close> holds the pending intervals as handle and the counter \<^verbatim>\<open>n\<close> that the
  callback of \<^verbatim>\<open>countdown\<close> has captured (the only callback scheduled with
  \<^verbatim>\<open>setInterval\<close>). Clearing \<^verbatim>\<open>null\<close> or a handle that is not pending does nothing.
\<close>

record Time =
  nextHandle :: nat
  timeouts :: "(nat \<times> real) list"
  intervals :: "(nat \<times> int) list"

definition setTimeout :: "Time \<Rightarrow> real \<Rightarrow> nat \<times> Time" where
  "setTimeout t delay =
     (nextHandle t,
      t\<lparr>nextHandle := Suc (nextHandle t), timeouts := timeouts t @ [(nextHandle t, delay)]\<rparr>)"

definition clearTimeout :: "Time \<Rightarrow> nat option \<Rightarrow> Time" where
  "clearTimeout t handle =
     t\<lparr>timeouts := filter (\<lambda>(h, delay). Some h \<noteq> handle) (timeouts t)\<rparr>"

definition setInterval :: "Time \<Rightarrow> int \<Rightarrow> nat \<times> Time" where
  "setInterval t n =
     (nextHandle t,
      t\<lparr>nextHandle := Suc (nextHandle t), intervals := intervals t @ [(nextHandle t, n)]\<rparr>)"

definition clearInterval :: "Time \<Rightarrow> nat \<Rightarrow> Time" where
  "clearInterval t handle = t\<lparr>intervals := filter (\<lambda>(h, n). h \<noteq> handle) (intervals t)\<rparr>"

text \<open>The payload of a received Hit or Miss, and the messages the scene sends.\<close>

record Data =
  point :: Vector3
  data_velocity :: Vector3
  data_ballHasHitEnemyTable :: bool
  isInit :: bool

datatype Message =
    SentHit Vector3 Vector3
  | SentMiss Vector3 Vector3 bool bool
  | SentRestartGame
  | SentRequestCountdown

record Communication =
  latency :: real
  isHost :: bool
  sent :: "Message list"

text \<open>
  Modelled from the spec: the tween engine (gsap) is not part of the sources. The spec:
  a linear decay of \<open>ballInterpolationAlpha\<close> from 1 to 0 over a fixed window of 0.5
  seconds. A running tween of a property is the value it started from and the seconds
  elapsed; \<^verbatim>\<open>TweenMax.to(this, 0.5, {ease: Power0.easeNone, ballInterpolationAlpha: 0})\<close>
  moves the property linearly to 0 within 0.5 seconds and touches no other property.
\<close>

record Tween =
  startValue :: real
  elapsed :: real

section \<open>The scene\<close>

text \<open>
  The fields of \<^verbatim>\<open>Scene\<close> that the game logic reads or writes. \<open>ball\<close> is \<^verbatim>\<open>null\<close>
  until the first \<^verbatim>\<open>addBall\<close>; \<open>Ball_new\<close> is the mesh that \<^verbatim>\<open>new Ball(...)\<close> builds
  (\<^verbatim>\<open>models/ball.js\<close> is not part of the sources). \<open>display\<close> tells whether a VR
  display was found, \<open>controller1\<close> and \<open>controller2\<close> are \<^verbatim>\<open>null\<close> or carry their
  \<^verbatim>\<open>visible\<close> flag. \<open>hitTween\<close> is the hit timeline, as seconds elapsed and total
  duration, absent before the first hit and once it has completed; \<open>ballTween\<close> is the
  running tween of \<open>ballInterpolationAlpha\<close>.
  \<open>emitted\<close> records what the scene emits on the emitter.
\<close>

record Scene =
  config :: Config
  score :: Score
  physics :: Physics
  time :: Time
  communication :: Communication
  emitted :: "EVENT list"
  ball :: "Mesh option"
  Ball_new :: Mesh
  paddle :: Mesh
  paddleOpponent :: Mesh
  crosshair_visible :: bool
  physicsTimeStep :: jsnum
  resetBallTimeout :: "nat option"
  ballHasHitEnemyTable :: bool
  resetTimeoutDuration :: real
  playerRequestedRestart :: bool
  opponentRequestedRestart :: bool
  playerRequestedCountdown :: bool
  opponentRequestedCountdown :: bool
  ballInterpolationAlpha :: real
  ballPositionDifference :: "Vector3 option"
  ballTween :: "Tween option"
  lastHitPosition :: "Vector3 option"
  ghostPaddlePosition :: Vector3
  hitAvailable :: bool
  hitTween :: "(real \<times> real) option"
  controlMode :: CONTROLMODE
  display :: bool
  controller1 :: "bool option"
  controller2 :: "bool option"
  pointerIsLocked :: bool
  mouseMoveSinceLastFrame :: "real \<times> real"
  mousePosition :: "real \<times> real"
  isMobile :: bool

subsection \<open>Small steps shared by the handlers\<close>

definition with_physics :: "Scene \<Rightarrow> Physics outcome \<Rightarrow> Scene outcome" where
  "with_physics s r =
     (case r of Returned p \<Rightarrow> Returned (s\<lparr>physics := p\<rparr>) | Threw p \<Rightarrow> Threw (s\<lparr>physics := p\<rparr>))"

definition update_body :: "(Body \<Rightarrow> Body) \<Rightarrow> Scene \<Rightarrow> Scene" where
  "update_body f s =
     s\<lparr>physics := (physics s)\<lparr>physics_ball := map_option f (physics_ball (physics s))\<rparr>\<rparr>"

definition send :: "Message \<Rightarrow> Scene \<Rightarrow> Scene" where
  "send m s = s\<lparr>communication := (communication s)\<lparr>sent := sent (communication s) @ [m]\<rparr>\<rparr>"

definition hitTween_isActive :: "Scene \<Rightarrow> bool" where
  "hitTween_isActive s = (case hitTween s of None \<Rightarrow> False | Some (e, d) \<Rightarrow> e < d)"

subsection \<open>Reset timer, ball, game over\<close>

definition restartPingpongTimeout :: "Scene \<Rightarrow> Scene" where
  "restartPingpongTimeout s =
     (let s1 = s\<lparr>time := clearTimeout (time s) (resetBallTimeout s)\<rparr> in
      if state (config s1) = GAME_OVER then s1
      else (case setTimeout (time s1) (resetTimeoutDuration s1) of
              (h, t) \<Rightarrow> s1\<lparr>time := t, resetBallTimeout := Some h\<rparr>))"

definition addBall :: "Scene \<Rightarrow> Scene outcome" where
  "addBall s =
     (let s1 = s\<lparr>config := (config s)\<lparr>state := PLAYING\<rparr>\<rparr> in
      case ball s1 of
        Some b \<Rightarrow>
          (let s2 = s1\<lparr>ball := Some (b\<lparr>visible := True\<rparr>)\<rparr> in
           andThen (with_physics s2 (physics_initBallPosition (physics s2) (mode (config s2))))
             (\<lambda>s3. Returned (restartPingpongTimeout s3)))
      | None \<Rightarrow>
          Returned (restartPingpongTimeout
            (s1\<lparr>ball := Some (Ball_new s1),
                physics := physics_addBall (physics s1) (mode (config s1))\<rparr>)))"

definition onGameOver :: "Scene \<Rightarrow> Scene outcome" where
  "onGameOver s =
     (case ball s of
        None \<Rightarrow> Threw s
      | Some b \<Rightarrow>
          Returned
            (s\<lparr>ball := Some (b\<lparr>visible := False\<rparr>),
               paddle := (paddle s)\<lparr>visible := False\<rparr>,
               paddleOpponent := (paddleOpponent s)\<lparr>visible := False\<rparr>,
               config := (config s)\<lparr>state := GAME_OVER\<rparr>,
               time := clearTimeout (time s) (resetBallTimeout s),
               crosshair_visible := True\<rparr>))"

text \<open>
  \<^verbatim>\<open>setupEventListeners\<close> registers \<^verbatim>\<open>onGameOver\<close> for \<^verbatim>\<open>EVENT.GAME_OVER\<close>; the
  emitter calls its listeners synchronously, so emitting runs the handler.
  No handler of the scene listens to \<^verbatim>\<open>EVENT.RESTART_GAME\<close>.
\<close>

definition emit_GAME_OVER :: "Scene \<Rightarrow> Scene outcome" where
  "emit_GAME_OVER s = onGameOver (s\<lparr>emitted := emitted s @ [EVENT_GAME_OVER]\<rparr>)"

definition emit_RESTART_GAME :: "Scene \<Rightarrow> Scene" where
  "emit_RESTART_GAME s = s\<lparr>emitted := emitted s @ [EVENT_RESTART_GAME]\<rparr>"

definition onBallTableCollision :: "Body \<Rightarrow> string \<Rightarrow> Scene \<Rightarrow> Scene outcome" where
  "onBallTableCollision body target_name s =
     (case physics_ball (physics s) of
        None \<Rightarrow> Threw s
      | Some b \<Rightarrow>
          Returned
            (if target_name = ''table-2-player''
                \<and> vec_z (position body) < tablePositionZ (config s)
             then s\<lparr>ballHasHitEnemyTable := True\<rparr> else s))"

subsection \<open>Countdown and restart\<close>

definition countdown :: "Scene \<Rightarrow> Scene" where
  "countdown s =
     (case setInterval (time s) 2 of
        (h, t) \<Rightarrow>
          s\<lparr>paddle := (paddle s)\<lparr>visible := True\<rparr>,
            paddleOpponent := (paddleOpponent s)\<lparr>visible := (mode (config s) = MULTIPLAYER)\<rparr>,
            config := (config s)\<lparr>state := COUNTDOWN\<rparr>,
            time := t\<rparr>)"

text \<open>The callback that \<^verbatim>\<open>countdown\<close> hands to \<^verbatim>\<open>setInterval\<close>, for the interval
  with handle \<open>h\<close> whose captured counter is \<open>n\<close>.\<close>

definition countdown_callback :: "nat \<Rightarrow> int \<Rightarrow> Scene \<Rightarrow> Scene outcome" where
  "countdown_callback h n s =
     (let s1 = s\<lparr>time := (time s)\<lparr>intervals :=
                 map (\<lambda>(k, m). if k = h then (k, n - 1) else (k, m)) (intervals (time s))\<rparr>\<rparr> in
      if n - 1 < 0 then
        (let s2 = s1\<lparr>time := clearInterval (time s1) h\<rparr> in
         if mode (config s2) = SINGLEPLAYER then
           andThen (addBall s2)
             (\<lambda>s3. with_physics s3 (physics_initBallPosition (physics s3) (mode (config s3))))
         else if mode (config s2) = MULTIPLAYER \<and> \<not> isHost (communication s2) then
           andThen (addBall s2)
             (\<lambda>s3. case physics_ball (physics s3) of
                      None \<Rightarrow> Threw s3
                    | Some b \<Rightarrow> Returned (send (SentMiss (position b) (velocity b) True True) s3))
         else Returned s2)
      else Returned s1)"

definition requestCountdown :: "Scene \<Rightarrow> Scene" where
  "requestCountdown s =
     (if playerRequestedCountdown s \<and> opponentRequestedCountdown s then countdown s else s)"

definition resetScore :: "Scene \<Rightarrow> Scene" where
  "resetScore s =
     s\<lparr>score := (score s)\<lparr>self := 0, opponent := 0, highest := 0,
                           lives := startLives (config s)\<rparr>\<rparr>"

definition restartGame :: "Scene \<Rightarrow> Scene" where
  "restartGame s =
     (let s1 = resetScore (s\<lparr>crosshair_visible := False, physics := (physics s)\<lparr>speed := 1\<rparr>\<rparr>) in
      if mode (config s1) = SINGLEPLAYER then emit_RESTART_GAME (countdown s1)
      else if opponentRequestedRestart s1 \<and> playerRequestedRestart s1 then
        countdown ((emit_RESTART_GAME s1)
                     \<lparr>playerRequestedRestart := False, opponentRequestedRestart := False\<rparr>)
      else s1)"

definition onRestartButtonPressed :: "Scene \<Rightarrow> Scene" where
  "onRestartButtonPressed s =
     restartGame
       (if mode (config s) = MULTIPLAYER
        then send SentRestartGame (s\<lparr>playerRequestedRestart := True\<rparr>)
        else s)"

definition onReceivedRestartGame :: "Scene \<Rightarrow> Scene" where
  "onReceivedRestartGame s = restartGame (s\<lparr>opponentRequestedRestart := True\<rparr>)"

definition onReceivedRequestCountdown :: "Scene \<Rightarrow> Scene" where
  "onReceivedRequestCountdown s = requestCountdown (s\<lparr>opponentRequestedCountdown := True\<rparr>)"

text \<open>\<^verbatim>\<open>startGame\<close>, from the moment the intro animation has resolved.\<close>

definition startGame :: "Scene \<Rightarrow> Scene" where
  "startGame s =
     (let s1 = s\<lparr>paddle := (paddle s)\<lparr>visible := True\<rparr>\<rparr> in
      if mode (config s1) = SINGLEPLAYER then countdown s1
      else requestCountdown
             (send SentRequestCountdown
                (s1\<lparr>paddleOpponent := (paddleOpponent s1)\<lparr>visible := True\<rparr>,
                    playerRequestedCountdown := True\<rparr>)))"

definition setMultiplayer :: "Scene \<Rightarrow> Scene" where
  "setMultiplayer s =
     s\<lparr>config := (config s)\<lparr>mode := MULTIPLAYER\<rparr>, resetTimeoutDuration := 3000\<rparr>"

definition setSingleplayer :: "Scene \<Rightarrow> Scene" where
  "setSingleplayer s =
     s\<lparr>config := (config s)\<lparr>mode := SINGLEPLAYER\<rparr>, resetTimeoutDuration := 1500\<rparr>"

subsection \<open>Messages from the peer\<close>

definition onReceivedHit :: "Data \<Rightarrow> bool \<Rightarrow> Scene \<Rightarrow> Scene outcome" where
  "onReceivedHit d wasMiss s =
     (let s1 = s\<lparr>time := clearTimeout (time s) (resetBallTimeout s)\<rparr> in
      andThen (if ball s1 = None then addBall s1 else Returned s1)
        (\<lambda>s2.
           case physics_ball (physics s2) of
             None \<Rightarrow> Threw (if wasMiss then s2\<lparr>physicsTimeStep := Num 1000\<rparr> else s2)
           | Some b \<Rightarrow>
               (let s3 =
                  (if \<not> wasMiss then
                     s2\<lparr>ballPositionDifference :=
                          Some (subVectors (position b)
                                  (mirrorPosition (point d) (tablePositionZ (config s2)))),
                        ballInterpolationAlpha := 1,
                        ballTween := Some \<lparr>startValue = 1, elapsed = 0\<rparr>,
                        physics := physics_increaseSpeed (physics s2)\<rparr>
                   else s2);
                  s4 = s3\<lparr>physicsTimeStep := Num 1000\<rparr>;
                  s5 = update_body
                         (\<lambda>b. b\<lparr>position := mirrorPosition (point d) (tablePositionZ (config s4))\<rparr>)
                         s4
                in Returned (update_body (\<lambda>b. b\<lparr>velocity := mirrorVelocity (data_velocity d)\<rparr>) s5))))"

definition onReceivedMiss :: "Data \<Rightarrow> Scene \<Rightarrow> Scene outcome" where
  "onReceivedMiss d s =
     (let s1 = s\<lparr>physics := (physics s)\<lparr>speed := 1\<rparr>,
                 ballPositionDifference := None,
                 time := clearTimeout (time s) (resetBallTimeout s)\<rparr> in
      andThen
        (if \<not> isInit d then
           Returned
             (if data_ballHasHitEnemyTable d
              then s1\<lparr>score := (score s1)\<lparr>opponent := opponent (score s1) + 1\<rparr>\<rparr>
              else s1\<lparr>score := (score s1)\<lparr>self := self (score s1) + 1\<rparr>\<rparr>)
         else addBall s1)
        (\<lambda>s2.
           if self (score s2) \<ge> POINTS_FOR_WIN (config s2)
              \<or> opponent (score s2) \<ge> POINTS_FOR_WIN (config s2)
           then emit_GAME_OVER s2
           else
             (case physics_ball (physics s2) of
                None \<Rightarrow> Threw s2
              | Some b \<Rightarrow>
                  andThen
                    (onReceivedHit d True
                       (update_body
                          (\<lambda>b. b\<lparr>angularVelocity := \<lparr>vec_x = 0, vec_y = 0, vec_z = 0\<rparr>\<rparr>) s2))
                    (\<lambda>s3. Returned (s3\<lparr>config := (config s3)\<lparr>state := PLAYING\<rparr>\<rparr>)))))"

subsection \<open>Local hit\<close>

definition slowdownBall :: "Scene \<Rightarrow> Scene outcome" where
  "slowdownBall s =
     (case physics_ball (physics s) of
        None \<Rightarrow> Threw s
      | Some b \<Rightarrow>
          if vec_z (velocity b) > 0 then Returned s
          else
            (case ball s of
               None \<Rightarrow> Threw s
             | Some m \<Rightarrow>
                 (let speed_of_ball = Num (length_v (velocity b));
                      dist = Num (length_v (subVectors (mesh_position m)
                                              (mesh_position (paddleOpponent s))));
                      eta = js_div dist speed_of_ball;
                      desirableEta = js_add eta (Num (latency (communication s) / 1000))
                  in Returned
                       (s\<lparr>physicsTimeStep :=
                            js_mul (js_mul (Num 1000) (js_div desirableEta eta)) (Num 1)\<rparr>))))"

definition ballHitAnimation :: "Scene \<Rightarrow> Scene outcome" where
  "ballHitAnimation s =
     (if \<not> hitTween_isActive s \<and> hitAvailable s then
        (case ball s of
           None \<Rightarrow> Threw (s\<lparr>hitAvailable := False, hitTween := Some (0, 0)\<rparr>)
         | Some m \<Rightarrow>
             Returned
               (s\<lparr>hitAvailable := False,
                  hitTween := Some (0, 0.05 + 0.4),
                  lastHitPosition :=
                    Some ((mesh_position m)
                            \<lparr>vec_y := max (vec_y (mesh_position m))
                                         (tableHeight (config s) + 0.2)\<rparr>)\<rparr>))
      else Returned s)"

definition onBallPaddleCollision :: "Vector3 \<Rightarrow> Scene \<Rightarrow> Scene outcome" where
  "onBallPaddleCollision pt s =
     (if hitTween_isActive s then Returned s
      else
        andThen (with_physics s (physics_onBallPaddleCollision (physics s) (paddle s)))
       (\<lambda>s1. andThen (ballHitAnimation s1)
       (\<lambda>s2.
          let s3 = (restartPingpongTimeout (s2\<lparr>ballPositionDifference := None\<rparr>))
                     \<lparr>ballHasHitEnemyTable := False\<rparr> in
          if mode (config s3) = SINGLEPLAYER
          then Returned (s3\<lparr>score := (score s3)\<lparr>self := self (score s3) + 1\<rparr>\<rparr>)
          else
            andThen (slowdownBall s3)
              (\<lambda>s4. case physics_ball (physics s4) of
                       None \<Rightarrow> Threw s4
                     | Some b \<Rightarrow> Returned (send (SentHit pt (velocity b)) s4)))))"

subsection \<open>Reset timeout\<close>

definition resetTimeoutEnded :: "Scene \<Rightarrow> Scene outcome" where
  "resetTimeoutEnded s =
     andThen
       (if mode (config s) = MULTIPLAYER then
          (let s1 = s\<lparr>physicsTimeStep := Num 1000\<rparr>;
               s2 = (if ballHasHitEnemyTable s1
                     then s1\<lparr>score := (score s1)\<lparr>self := self (score s1) + 1\<rparr>\<rparr>
                     else s1\<lparr>score := (score s1)\<lparr>opponent := opponent (score s1) + 1\<rparr>\<rparr>)
           in andThen
                (if opponent (score s2) \<ge> POINTS_FOR_WIN (config s2)
                    \<or> self (score s2) \<ge> POINTS_FOR_WIN (config s2)
                 then emit_GAME_OVER s2
                 else with_physics s2 (physics_initBallPosition (physics s2) (mode (config s2))))
                (\<lambda>s3. case physics_ball (physics s3) of
                         None \<Rightarrow> Threw s3
                       | Some b \<Rightarrow>
                           Returned
                             ((send (SentMiss (position b) (velocity b)
                                       (ballHasHitEnemyTable s3) False) s3)
                                \<lparr>ballHasHitEnemyTable := False\<rparr>)))
        else
          (let s1 = s\<lparr>score := (score s)\<lparr>highest := max (self (score s)) (highest (score s))\<rparr>\<rparr>;
               s2 = s1\<lparr>score := (score s1)\<lparr>self := 0\<rparr>\<rparr>
           in andThen (with_physics s2 (physics_initBallPosition (physics s2) (mode (config s2))))
                (\<lambda>s3. let s4 = s3\<lparr>score := (score s3)\<lparr>lives := lives (score s3) - 1\<rparr>\<rparr> in
                       if lives (score s4) < 1 then emit_GAME_OVER s4 else Returned s4)))
       (\<lambda>s5. Returned (restartPingpongTimeout s5))"

subsection \<open>The frame\<close>

text \<open>The three parts of \<^verbatim>\<open>animate\<close> that touch the game state: the test for a hit of
  the paddle, the step of the physics world (its result is a parameter) followed by
  \<^verbatim>\<open>updateBall\<close>, both only while playing.\<close>

definition updateBall :: "Scene \<Rightarrow> Scene outcome" where
  "updateBall s =
     (case physics_ball (physics s) of
        None \<Rightarrow> Threw s
      | Some b \<Rightarrow>
          (case ball s of
             None \<Rightarrow> Threw s
           | Some m \<Rightarrow>
               Returned
                 (s\<lparr>ball := Some
                      (m\<lparr>mesh_position :=
                           (case ballPositionDifference s of
                              Some d \<Rightarrow>
                                lerpVectors (position b) (addVectors (position b) d)
                                  (ballInterpolationAlpha s)
                            | None \<Rightarrow> position b),
                         mesh_quaternion := quaternion b\<rparr>)\<rparr>)))"

definition animate_hit :: "Scene \<Rightarrow> Scene outcome" where
  "animate_hit s =
     (case ball s of
        None \<Rightarrow> Returned s
      | Some m \<Rightarrow>
          (let dist = subVectors (mesh_position m) (mesh_position (paddle s)) in
           if length_v dist < 0.4 \<and> \<bar>vec_x dist\<bar> < 0.2 \<and> \<bar>vec_z dist\<bar> < 0.1
              \<or> isMobile s \<and> length_v dist < 0.8 \<and> \<bar>vec_x dist\<bar> < 0.3 \<and> \<bar>vec_z dist\<bar> < 0.1
           then
             (case physics_ball (physics s) of
                None \<Rightarrow> Threw s
              | Some b \<Rightarrow>
                  if vec_z (velocity b) > 0 then onBallPaddleCollision (mesh_position m) s
                  else Returned s)
           else Returned s))"

definition animate_physics :: "Body \<Rightarrow> Scene \<Rightarrow> Scene outcome" where
  "animate_physics stepped s =
     (if state (config s) = PLAYING
      then updateBall (update_body (\<lambda>b. stepped) s)
      else Returned s)"

text \<open>The gsap ticker advances the running tweens by \<open>dt\<close> seconds: the tween of
  \<open>ballInterpolationAlpha\<close> (linear, to 0, 0.5 seconds long) and the hit timeline, which
  calls \<^verbatim>\<open>onComplete\<close> when it ends.\<close>

definition advance_ballTween :: "real \<Rightarrow> Scene \<Rightarrow> Scene" where
  "advance_ballTween dt s =
     (case ballTween s of
        None \<Rightarrow> s
      | Some tw \<Rightarrow>
          if 0.5 \<le> elapsed tw + dt
          then s\<lparr>ballInterpolationAlpha := 0, ballTween := None\<rparr>
          else s\<lparr>ballInterpolationAlpha :=
                    startValue tw + (0 - startValue tw) * ((elapsed tw + dt) / 0.5),
                  ballTween := Some (tw\<lparr>elapsed := elapsed tw + dt\<rparr>)\<rparr>)"

definition advance_hitTween :: "real \<Rightarrow> Scene \<Rightarrow> Scene" where
  "advance_hitTween dt s =
     (case hitTween s of
        None \<Rightarrow> s
      | Some (e, d) \<Rightarrow>
          if d \<le> e + dt then s\<lparr>hitTween := None, hitAvailable := True\<rparr>
          else s\<lparr>hitTween := Some (e + dt, d)\<rparr>)"

definition tick :: "real \<Rightarrow> Scene \<Rightarrow> Scene" where
  "tick dt s = advance_hitTween dt (advance_ballTween dt s)"

subsection \<open>Paddle target\<close>

text \<open>\<open>intersects\<close> is what \<^verbatim>\<open>this.raycaster.intersectObject(this.tablePlane, false)\<close>
  returns in the branch taken (the points of intersection, nearest first).\<close>

definition computePaddlePosition :: "Vector3 list \<Rightarrow> Scene \<Rightarrow> Vector3" where
  "computePaddlePosition intersects s =
     (let paddlePosition =
        (if display s \<and> controlMode s = VR then
           (let controller =
                  (if controller1 s = Some True then controller1 s
                   else if controller2 s = Some True then controller2 s
                   else None);
                hits =
                  (if controller \<noteq> None then intersects
                   else (case intersects of
                           [] \<Rightarrow> []
                         | p # ps \<Rightarrow> p\<lparr>vec_x := vec_x p * 1.5\<rparr> # ps))
            in case hits of [] \<Rightarrow> None | p # ps \<Rightarrow> Some p)
         else if pointerIsLocked s then
           Some \<lparr>vec_x = vec_x (ghostPaddlePosition s) + 0.0015 * fst (mouseMoveSinceLastFrame s),
                 vec_y = tableHeight (config s) + 0.24,
                 vec_z = vec_z (ghostPaddlePosition s) + 0.0015 * snd (mouseMoveSinceLastFrame s)\<rparr>
         else
           Some \<lparr>vec_x = 1.4 * fst (mousePosition s) * tableWidth (config s),
                 vec_y = tableHeight (config s) + 0.24,
                 vec_z = - tableDepth (config s) * 0.5 * (snd (mousePosition s) + 0.5)\<rparr>)
      in case paddlePosition of
           Some p \<Rightarrow>
             (let x = cap (vec_x p) (tableWidth (config s)) (- tableWidth (config s));
                  z = cap (vec_z p) (tablePositionZ (config s) + 0.5) 0;
                  y = (if vec_y p \<noteq> 0 then vec_y p
                       else tableHeight (config s) + 0.1 - z * 0.2)
              in \<lparr>vec_x = x, vec_y = y, vec_z = z\<rparr>)
         | None \<Rightarrow> mesh_position (paddle s))"

section \<open>The scene as a state machine\<close>

text \<open>
  The constructor of \<^verbatim>\<open>Scene\<close>, over a scene \<open>env\<close> that supplies the collaborators and
  \<^verbatim>\<open>INITIAL_CONFIG\<close>; then the end of \<^verbatim>\<open>setup\<close>, which places the paddle with the
  mouse at the center of the viewport.
\<close>

definition constructed :: "Scene \<Rightarrow> Scene" where
  "constructed env =
     env\<lparr>score := \<lparr>self = 0, opponent = 0, lives = startLives (config env), highest = 0\<rparr>,
         physics := (physics env)\<lparr>physics_ball := None\<rparr>,
         time := \<lparr>nextHandle = 0, timeouts = [], intervals = []\<rparr>,
         emitted := [],
         ball := None,
         physicsTimeStep := Num 1000,
         resetBallTimeout := None,
         ballHasHitEnemyTable := False,
         resetTimeoutDuration := 1500,
         playerRequestedRestart := False,
         opponentRequestedRestart := False,
         playerRequestedCountdown := False,
         opponentRequestedCountdown := False,
         ballInterpolationAlpha := 0,
         ballPositionDifference := None,
         ballTween := None,
         lastHitPosition := None,
         ghostPaddlePosition := \<lparr>vec_x = 0, vec_y = 0, vec_z = 0\<rparr>,
         hitAvailable := True,
         hitTween := None,
         controlMode := MOUSE,
         display := False,
         controller1 := None,
         controller2 := None,
         pointerIsLocked := False,
         mouseMoveSinceLastFrame := (0, 0),
         mousePosition := (0, 0)\<rparr>"

definition setup_scene :: "Scene \<Rightarrow> Scene" where
  "setup_scene s =
     (let s1 = s\<lparr>paddle := (paddle s)\<lparr>mesh_position := computePaddlePosition [] s\<rparr>\<rparr>
      in s1\<lparr>ghostPaddlePosition := mesh_position (paddle s1)\<rparr>)"

text \<open>What can happen to a scene: a frame, a tick of the tween engine, an event of the
  emitter, a message of the peer, a due timer, a change of mode, the start of a game.\<close>

datatype Event =
    Frame_hit
  | Frame_physics Body
  | Tick real
  | BallTableCollision Body string
  | RestartButtonPressed
  | ReceivedHit Data
  | ReceivedMiss Data
  | ReceivedRestartGame
  | ReceivedRequestCountdown
  | TimeoutFired nat
  | IntervalFired nat
  | SetMultiplayer
  | SetSingleplayer
  | StartGame

text \<open>A timer that is due is taken off the pending ones and its callback runs; an
  interval stays pending. A handle that is not pending fires nothing.\<close>

definition fireTimeout :: "nat \<Rightarrow> Scene \<Rightarrow> Scene outcome" where
  "fireTimeout h s =
     (case map_of (timeouts (time s)) h of
        None \<Rightarrow> Returned s
      | Some delay \<Rightarrow>
          resetTimeoutEnded
            (s\<lparr>time := (time s)\<lparr>timeouts := filter (\<lambda>(k, d). k \<noteq> h) (timeouts (time s))\<rparr>\<rparr>))"

definition fireInterval :: "nat \<Rightarrow> Scene \<Rightarrow> Scene outcome" where
  "fireInterval h s =
     (case map_of (intervals (time s)) h of
        None \<Rightarrow> Returned s
      | Some n \<Rightarrow> countdown_callback h n s)"

fun handle :: "Event \<Rightarrow> Scene \<Rightarrow> Scene outcome" where
  "handle Frame_hit s = animate_hit s"
| "handle (Frame_physics stepped) s = animate_physics stepped s"
| "handle (Tick dt) s = Returned (tick dt s)"
| "handle (BallTableCollision body target_name) s = onBallTableCollision body target_name s"
| "handle RestartButtonPressed s = Returned (onRestartButtonPressed s)"
| "handle (ReceivedHit d) s = onReceivedHit d False s"
| "handle (ReceivedMiss d) s = onReceivedMiss d s"
| "handle ReceivedRestartGame s = Returned (onReceivedRestartGame s)"
| "handle ReceivedRequestCountdown s = Returned (onReceivedRequestCountdown s)"
| "handle (TimeoutFired h) s = fireTimeout h s"
| "handle (IntervalFired h) s = fireInterval h s"
| "handle SetMultiplayer s = Returned (setMultiplayer s)"
| "handle SetSingleplayer s = Returned (setSingleplayer s)"
| "handle StartGame s = Returned (startGame s)"

definition step :: "Event \<Rightarrow> Scene \<Rightarrow> Scene" where
  "step e s = state_of (handle e s)"

definition run :: "Event list \<Rightarrow> Scene \<Rightarrow> Scene" where
  "run es s = foldl (\<lambda>s e. step e s) s es"

inductive reachable :: "Scene \<Rightarrow> bool" where
  reach_start: "reachable (setup_scene (constructed env))"
| reach_step: "reachable s \<Longrightarrow> reachable (step e s)"

text \<open>The reset timers are in order when at most one is pending, and the pending one is
  the one that \<^verbatim>\<open>resetBallTimeout\<close> records.\<close>

definition timers_ok :: "Scene \<Rightarrow> bool" where
  "timers_ok s =
     (timeouts (time s) = []
      \<or> map (\<lambda>p. Some (fst p)) (timeouts (time s)) = [resetBallTimeout s])"

text \<open>A scene is calm when its reset timers are in order and a timer is pending only
  while the game is being played.\<close>

definition calm :: "Scene \<Rightarrow> bool" where
  "calm s = (timers_ok s \<and> (timeouts (time s) = [] \<or> state (config s) = PLAYING))"

text \<open>A scene is quiet when its reset timers are in order and none is pending once the
  game is over.\<close>

definition quiet :: "Scene \<Rightarrow> bool" where
  "quiet s = (timers_ok s \<and> (state (config s) = GAME_OVER \<longrightarrow> timeouts (time s) = []))"

section \<open>Example scenes\<close>

text \<open>A concrete environment: a table of width 1.5 at \<open>z = 2\<close>, eleven points to win,
  three lives, a physics world that serves the ball towards the player.\<close>

definition serve_body :: Body where
  "serve_body =
     \<lparr>position = \<lparr>vec_x = 0, vec_y = 1, vec_z = 0\<rparr>,
      velocity = \<lparr>vec_x = 0, vec_y = 0, vec_z = 2\<rparr>,
      angularVelocity = \<lparr>vec_x = 0, vec_y = 0, vec_z = 0\<rparr>,
      quaternion = (0, 0, 0, 1)\<rparr>"

definition env0 :: Scene where
  "env0 =
     \<lparr>config =
        \<lparr>mode = SINGLEPLAYER, state = MENU, startLives = 3, POINTS_FOR_WIN = 11,
         tableWidth = 1.5, tableDepth = 3, tableHeight = 0.8, tablePositionZ = 2\<rparr>,
      score = \<lparr>self = 0, opponent = 0, lives = 0, highest = 0\<rparr>,
      physics =
        \<lparr>physics_ball = None, speed = 1,
         newBody = (\<lambda>m. serve_body),
         respawn = (\<lambda>m b. serve_body),
         faster = (\<lambda>v. v + 1),
         bounce = (\<lambda>b m. b\<lparr>velocity := mirrorVelocity (velocity b)\<rparr>)\<rparr>,
      time = \<lparr>nextHandle = 0, timeouts = [], intervals = []\<rparr>,
      communication = \<lparr>latency = 100, isHost = True, sent = []\<rparr>,
      emitted = [],
      ball = None,
      Ball_new = \<lparr>mesh_position = \<lparr>vec_x = 0, vec_y = 1, vec_z = 0\<rparr>,
                  mesh_quaternion = (0, 0, 0, 1), visible = True\<rparr>,
      paddle = \<lparr>mesh_position = \<lparr>vec_x = 0, vec_y = 1, vec_z = 0\<rparr>,
                mesh_quaternion = (0, 0, 0, 1), visible = False\<rparr>,
      paddleOpponent = \<lparr>mesh_position = \<lparr>vec_x = 0, vec_y = 1, vec_z = 4\<rparr>,
                        mesh_quaternion = (0, 0, 0, 1), visible = False\<rparr>,
      crosshair_visible = False,
      physicsTimeStep = Num 1000,
      resetBallTimeout = None,
      ballHasHitEnemyTable = False,
      resetTimeoutDuration = 1500,
      playerRequestedRestart = False,
      opponentRequestedRestart = False,
      playerRequestedCountdown = False,
      opponentRequestedCountdown = False,
      ballInterpolationAlpha = 0,
      ballPositionDifference = None,
      ballTween = None,
      lastHitPosition = None,
      ghostPaddlePosition = \<lparr>vec_x = 0, vec_y = 0, vec_z = 0\<rparr>,
      hitAvailable = True,
      hitTween = None,
      controlMode = MOUSE,
      display = False,
      controller1 = None,
      controller2 = None,
      pointerIsLocked = False,
      mouseMoveSinceLastFrame = (0, 0),
      mousePosition = (0, 0),
      isMobile = False\<rparr>"

text \<open>A singleplayer and a multiplayer scene in play, each with its ball and its reset
  timer pending.\<close>

definition single_playing :: Scene where
  "single_playing = state_of (addBall (setSingleplayer (setup_scene (constructed env0))))"

definition multi_playing :: Scene where
  "multi_playing = state_of (addBall (setMultiplayer (setup_scene (constructed env0))))"

text \<open>The Hit message of the third scenario of the spec.\<close>

definition hit3 :: Data where
  "hit3 =
     \<lparr>point = \<lparr>vec_x = 0.5, vec_y = 0, vec_z = 1.2\<rparr>,
      data_velocity = \<lparr>vec_x = 0, vec_y = 0, vec_z = - 2\<rparr>,
      data_ballHasHitEnemyTable = False,
      isInit = False\<rparr>"

text \<open>A singleplayer game from the constructor on: the game starts, the countdown
  runs its three ticks and adds the ball; then the ball is lost three times.\<close>

definition fresh_scene :: Scene where
  "fresh_scene = setup_scene (constructed env0)"

definition single_started :: Scene where
  "single_started =
     run [StartGame, IntervalFired 0, IntervalFired 0, IntervalFired 0] fresh_scene"

definition single_over :: Scene where
  "single_over = run [TimeoutFired 1, TimeoutFired 2, TimeoutFired 3] single_started"

text \<open>The singleplayer game after five returns in a row, the best rally so far being
  of two.\<close>

definition single_rally :: Scene where
  "single_rally = single_started\<lparr>score := (score single_started)\<lparr>self := 5, highest := 2\<rparr>\<rparr>"

text \<open>A multiplayer game at 10 to 5, the ball last touched the half of the opponent;
  then the reset timer fires and the player has won 11 to 5. A Miss of the peer that
  reports the fault of the peer.\<close>

definition multi_match_point :: Scene where
  "multi_match_point =
     multi_playing\<lparr>score := (score multi_playing)\<lparr>self := 10, opponent := 5\<rparr>,
                    ballHasHitEnemyTable := True\<rparr>"

definition multi_over :: Scene where
  "multi_over = step (TimeoutFired 0) multi_match_point"

definition miss_of_peer :: Data where
  "miss_of_peer =
     \<lparr>point = \<lparr>vec_x = 0, vec_y = 1, vec_z = 4\<rparr>,
      data_velocity = \<lparr>vec_x = 0, vec_y = 0, vec_z = - 2\<rparr>,
      data_ballHasHitEnemyTable = False,
      isInit = False\<rparr>"

text \<open>A headset without controller whose ray misses the table plane, while the hit
  animation has drawn the paddle just past the edge of the table.\<close>

definition vr_scene :: Scene where
  "vr_scene =
     single_playing
       \<lparr>display := True, controlMode := VR,
        paddle := (paddle single_playing)
                    \<lparr>mesh_position := \<lparr>vec_x = 1.6, vec_y = 1, vec_z = - 0.05\<rparr>\<rparr>\<rparr>"

text \<open>The multiplayer game with the ball on its way to the opponent, and the
  singleplayer game with the pointer locked and a wide movement of the mouse.\<close>

definition multi_returning :: Scene where
  "multi_returning =
     update_body (\<lambda>b. b\<lparr>velocity := \<lparr>vec_x = 0, vec_y = 0, vec_z = - 2\<rparr>\<rparr>) multi_playing"

definition single_dragging :: Scene where
  "single_dragging =
     single_started\<lparr>pointerIsLocked := True, mouseMoveSinceLastFrame := (2000, 1000)\<rparr>"

text \<open>The multiplayer game just after the player has struck the served ball (the hit
  tween runs), with the paddle of the opponent where the ball is, and with a physics
  world whose bounce leaves the ball at rest.\<close>

definition multi_struck :: Scene where
  "multi_struck =
     state_of (onBallPaddleCollision \<lparr>vec_x = 0, vec_y = 1, vec_z = 0\<rparr> multi_playing)"

definition multi_at_paddle :: Scene where
  "multi_at_paddle =
     multi_playing
       \<lparr>paddleOpponent := (paddleOpponent multi_playing)
                            \<lparr>mesh_position := \<lparr>vec_x = 0, vec_y = 1, vec_z = 0\<rparr>\<rparr>\<rparr>"

definition multi_at_rest :: Scene where
  "multi_at_rest =
     multi_playing
       \<lparr>physics := (physics multi_playing)
          \<lparr>bounce := (\<lambda>b m. b\<lparr>velocity := \<lparr>vec_x = 0, vec_y = 0, vec_z = 0\<rparr>\<rparr>)\<rparr>\<rparr>"

section \<open>Unfolding and evaluation\<close>

lemmas helper_defs = with_physics_def update_body_def send_def hitTween_isActive_def
  state_of_def andThen_def returned_def physics_addBall_def physics_initBallPosition_def
  physics_increaseSpeed_def physics_onBallPaddleCollision_def
  setTimeout_def clearTimeout_def setInterval_def clearInterval_def
  subVectors_def addVectors_def lerpVectors_def cap_def mirrorPosition_def mirrorVelocity_def

lemmas handler_defs = restartPingpongTimeout_def addBall_def onGameOver_def emit_GAME_OVER_def
  emit_RESTART_GAME_def onBallTableCollision_def countdown_def countdown_callback_def
  requestCountdown_def resetScore_def restartGame_def onRestartButtonPressed_def
  onReceivedRestartGame_def onReceivedRequestCountdown_def startGame_def
  onReceivedHit_def onReceivedMiss_def slowdownBall_def ballHitAnimation_def
  onBallPaddleCollision_def resetTimeoutEnded_def updateBall_def animate_hit_def
  animate_physics_def tick_def advance_ballTween_def advance_hitTween_def
  computePaddlePosition_def fireTimeout_def fireInterval_def
  constructed_def setup_scene_def setMultiplayer_def setSingleplayer_def
  step_def run_def

lemmas model_defs = handler_defs helper_defs Let_def

subsection \<open>Outcomes\<close>

lemma state_of_simps [simp]: "state_of (Returned s) = s" "state_of (Threw s) = s"
  by (simp_all add: state_of_def)

lemma returned_simps [simp]: "returned (Returned s)" "\<not> returned (Threw s)"
  by (simp_all add: returned_def)

lemma state_of_andThen:
  "state_of (andThen r f) = (if returned r then state_of (f (state_of r)) else state_of r)"
  by (cases r) (simp_all add: andThen_def)

lemma returned_andThen:
  "returned (andThen r f) = (returned r \<and> returned (f (state_of r)))"
  by (cases r) (simp_all add: andThen_def)

lemma state_of_with_physics: "state_of (with_physics s r) = s\<lparr>physics := state_of r\<rparr>"
  by (cases r) (simp_all add: with_physics_def)

lemma returned_with_physics: "returned (with_physics s r) = returned r"
  by (cases r) (simp_all add: with_physics_def)

lemma state_of_initBallPosition:
  "state_of (physics_initBallPosition p m) =
     p\<lparr>physics_ball := map_option (respawn p m) (physics_ball p)\<rparr>"
  by (simp add: physics_initBallPosition_def split: option.splits)

lemma returned_initBallPosition:
  "returned (physics_initBallPosition p m) = (physics_ball p \<noteq> None)"
  by (simp add: physics_initBallPosition_def split: option.splits)

lemma state_of_physics_collision:
  "state_of (physics_onBallPaddleCollision p t) =
     p\<lparr>physics_ball := map_option (\<lambda>b. bounce p b t) (physics_ball p)\<rparr>"
  by (simp add: physics_onBallPaddleCollision_def split: option.splits)

lemma returned_physics_collision:
  "returned (physics_onBallPaddleCollision p t) = (physics_ball p \<noteq> None)"
  by (simp add: physics_onBallPaddleCollision_def split: option.splits)

lemmas outcome_simps = state_of_andThen returned_andThen state_of_with_physics
  returned_with_physics state_of_initBallPosition returned_initBallPosition
  state_of_physics_collision returned_physics_collision

section \<open>Facts about the handlers\<close>

subsection \<open>What the handlers do to the score\<close>

lemma score_restartPingpongTimeout: "score (restartPingpongTimeout s) = score s"
  by (simp add: restartPingpongTimeout_def Let_def setTimeout_def split: prod.splits)

lemma score_addBall: "score (state_of (addBall s)) = score s"
  by (simp add: addBall_def Let_def outcome_simps score_restartPingpongTimeout
      split: option.splits)

lemma score_onGameOver: "score (state_of (onGameOver s)) = score s"
  by (simp add: onGameOver_def split: option.splits)

lemma score_emit_GAME_OVER: "score (state_of (emit_GAME_OVER s)) = score s"
  by (simp add: emit_GAME_OVER_def score_onGameOver)

lemma score_onReceivedHit: "score (state_of (onReceivedHit d w s)) = score s"
  by (simp add: onReceivedHit_def Let_def outcome_simps update_body_def score_addBall
      split: option.splits)

lemma score_slowdownBall: "score (state_of (slowdownBall s)) = score s"
  by (simp add: slowdownBall_def Let_def split: option.splits)

lemma score_ballHitAnimation: "score (state_of (ballHitAnimation s)) = score s"
  by (simp add: ballHitAnimation_def split: option.splits)

lemma score_countdown: "score (countdown s) = score s"
  by (simp add: countdown_def setInterval_def)

lemma score_countdown_callback: "score (state_of (countdown_callback h n s)) = score s"
  by (simp add: countdown_callback_def Let_def outcome_simps score_addBall send_def
      split: option.splits)

lemma score_updateBall: "score (state_of (updateBall s)) = score s"
  by (simp add: updateBall_def split: option.splits)

lemma score_tick: "score (tick dt s) = score s"
  by (simp add: tick_def advance_ballTween_def advance_hitTween_def
      split: option.splits prod.splits)

lemmas score_frames = score_restartPingpongTimeout score_addBall score_onGameOver
  score_emit_GAME_OVER score_onReceivedHit score_slowdownBall score_ballHitAnimation
  score_countdown score_countdown_callback score_updateBall score_tick

lemma score_onBallPaddleCollision:
  "score (state_of (onBallPaddleCollision pt s)) = score s
   \<or> score (state_of (onBallPaddleCollision pt s)) = (score s)\<lparr>self := self (score s) + 1\<rparr>"
  by (simp add: onBallPaddleCollision_def Let_def outcome_simps score_frames send_def
      split: option.splits)

lemma score_resetTimeoutEnded_multi:
  assumes "mode (config s) = MULTIPLAYER"
  shows "score (state_of (resetTimeoutEnded s)) =
           (if ballHasHitEnemyTable s then (score s)\<lparr>self := self (score s) + 1\<rparr>
            else (score s)\<lparr>opponent := opponent (score s) + 1\<rparr>)"
proof (cases "ballHasHitEnemyTable s")
  case True
  with assms show ?thesis
    by (simp add: resetTimeoutEnded_def Let_def outcome_simps score_frames send_def
        split: option.splits)
next
  case False
  with assms show ?thesis
    by (simp add: resetTimeoutEnded_def Let_def outcome_simps score_frames send_def
        split: option.splits)
qed

lemma fire_single:
  assumes "mode (config s) = SINGLEPLAYER" and "state (config s) \<noteq> GAME_OVER"
    and "ball s = Some m" and "physics_ball (physics s) = Some b"
    and "timeouts (time s) = [(h, d)]"
  shows "returned (handle (TimeoutFired h) s)"
    and "lives (score (step (TimeoutFired h) s)) = lives (score s) - 1"
    and "mode (config (step (TimeoutFired h) s)) = SINGLEPLAYER"
    and "ball (step (TimeoutFired h) s) \<noteq> None"
    and "physics_ball (physics (step (TimeoutFired h) s)) \<noteq> None"
    and "resetTimeoutDuration (step (TimeoutFired h) s) = resetTimeoutDuration s"
    and "lives (score s) - 1 < 1 \<Longrightarrow>
           state (config (step (TimeoutFired h) s)) = GAME_OVER
           \<and> emitted (step (TimeoutFired h) s) = emitted s @ [EVENT_GAME_OVER]
           \<and> timeouts (time (step (TimeoutFired h) s)) = []"
    and "\<not> lives (score s) - 1 < 1 \<Longrightarrow>
           state (config (step (TimeoutFired h) s)) = state (config s)
           \<and> emitted (step (TimeoutFired h) s) = emitted s
           \<and> timeouts (time (step (TimeoutFired h) s))
               = [(nextHandle (time s), resetTimeoutDuration s)]
           \<and> nextHandle (time (step (TimeoutFired h) s)) = Suc (nextHandle (time s))"
  using assms
  by (simp_all add: step_def fireTimeout_def resetTimeoutEnded_def emit_GAME_OVER_def
      onGameOver_def restartPingpongTimeout_def setTimeout_def clearTimeout_def
      physics_initBallPosition_def with_physics_def andThen_def Let_def)

lemma score_resetTimeoutEnded_single:
  assumes "mode (config s) = SINGLEPLAYER"
  shows "score (state_of (resetTimeoutEnded s)) =
           (score s)\<lparr>highest := max (self (score s)) (highest (score s)), self := 0,
                     lives := (if physics_ball (physics s) = None then lives (score s)
                               else lives (score s) - 1)\<rparr>"
  using assms
  by (simp add: resetTimeoutEnded_def Let_def outcome_simps score_frames
      split: option.splits)

lemma score_onReceivedMiss:
  "score (state_of (onReceivedMiss d s)) =
     (if isInit d then score s
      else if data_ballHasHitEnemyTable d then (score s)\<lparr>opponent := opponent (score s) + 1\<rparr>
      else (score s)\<lparr>self := self (score s) + 1\<rparr>)"
  by (simp add: onReceivedMiss_def Let_def outcome_simps score_frames update_body_def
      split: option.splits)

subsection \<open>What the handlers emit and what they do to the state of the game\<close>

lemma emitted_restartPingpongTimeout: "emitted (restartPingpongTimeout s) = emitted s"
  by (simp add: restartPingpongTimeout_def Let_def setTimeout_def split: prod.splits)

lemma config_restartPingpongTimeout: "config (restartPingpongTimeout s) = config s"
  by (simp add: restartPingpongTimeout_def Let_def setTimeout_def split: prod.splits)

lemma emitted_addBall: "emitted (state_of (addBall s)) = emitted s"
  by (simp add: addBall_def Let_def outcome_simps emitted_restartPingpongTimeout
      split: option.splits)

lemma config_addBall: "config (state_of (addBall s)) = (config s)\<lparr>state := PLAYING\<rparr>"
  by (simp add: addBall_def Let_def outcome_simps config_restartPingpongTimeout
      split: option.splits)

lemma emitted_onGameOver: "emitted (state_of (onGameOver s)) = emitted s"
  by (simp add: onGameOver_def split: option.splits)

lemma config_onGameOver:
  "config (state_of (onGameOver s)) =
     (if ball s = None then config s else (config s)\<lparr>state := GAME_OVER\<rparr>)"
  by (simp add: onGameOver_def split: option.splits)

lemma emitted_emit_GAME_OVER:
  "emitted (state_of (emit_GAME_OVER s)) = emitted s @ [EVENT_GAME_OVER]"
  by (simp add: emit_GAME_OVER_def emitted_onGameOver)

lemma config_emit_GAME_OVER:
  "config (state_of (emit_GAME_OVER s)) =
     (if ball s = None then config s else (config s)\<lparr>state := GAME_OVER\<rparr>)"
  by (simp add: emit_GAME_OVER_def config_onGameOver)

lemma emitted_onReceivedHit: "emitted (state_of (onReceivedHit d w s)) = emitted s"
  by (simp add: onReceivedHit_def Let_def outcome_simps update_body_def emitted_addBall
      split: option.splits)

lemma config_onReceivedHit:
  "config (state_of (onReceivedHit d w s)) =
     (if ball s = None then (config s)\<lparr>state := PLAYING\<rparr> else config s)"
  by (simp add: onReceivedHit_def Let_def outcome_simps update_body_def config_addBall
      split: option.splits)

lemma returned_onGameOver: "returned (onGameOver s) = (ball s \<noteq> None)"
  by (simp add: onGameOver_def split: option.splits)

lemma returned_emit_GAME_OVER: "returned (emit_GAME_OVER s) = (ball s \<noteq> None)"
  by (simp add: emit_GAME_OVER_def returned_onGameOver)

lemmas emitted_frames = emitted_restartPingpongTimeout emitted_addBall emitted_onGameOver
  emitted_emit_GAME_OVER emitted_onReceivedHit

lemmas config_frames = config_restartPingpongTimeout config_addBall config_onGameOver
  config_emit_GAME_OVER config_onReceivedHit

lemma emitted_resetTimeoutEnded_multi:
  assumes "mode (config s) = MULTIPLAYER"
  shows "emitted (state_of (resetTimeoutEnded s)) =
           (if POINTS_FOR_WIN (config s) \<le> self (score (state_of (resetTimeoutEnded s)))
               \<or> POINTS_FOR_WIN (config s) \<le> opponent (score (state_of (resetTimeoutEnded s)))
            then emitted s @ [EVENT_GAME_OVER] else emitted s)"
proof (cases "ballHasHitEnemyTable s")
  case True
  with assms show ?thesis
    by (simp add: score_resetTimeoutEnded_multi)
      (simp add: resetTimeoutEnded_def Let_def outcome_simps emitted_frames send_def
        split: option.splits)
next
  case False
  with assms show ?thesis
    by (simp add: score_resetTimeoutEnded_multi)
      (simp add: resetTimeoutEnded_def Let_def outcome_simps emitted_frames send_def
        split: option.splits)
qed

lemma state_resetTimeoutEnded_multi:
  assumes "mode (config s) = MULTIPLAYER" and "ball s = Some m"
    and "state (config s) \<noteq> GAME_OVER"
  shows "(state (config (state_of (resetTimeoutEnded s))) = GAME_OVER) =
           (POINTS_FOR_WIN (config s) \<le> self (score (state_of (resetTimeoutEnded s)))
            \<or> POINTS_FOR_WIN (config s) \<le> opponent (score (state_of (resetTimeoutEnded s))))"
proof (cases "ballHasHitEnemyTable s")
  case True
  with assms show ?thesis
    by (simp add: score_resetTimeoutEnded_multi)
      (simp add: resetTimeoutEnded_def Let_def outcome_simps config_frames send_def
        returned_emit_GAME_OVER split: option.splits)
next
  case False
  with assms show ?thesis
    by (simp add: score_resetTimeoutEnded_multi)
      (simp add: resetTimeoutEnded_def Let_def outcome_simps config_frames send_def
        returned_emit_GAME_OVER split: option.splits)
qed

lemma emitted_onReceivedMiss:
  assumes "\<not> isInit d"
  shows "emitted (state_of (onReceivedMiss d s)) =
     (if POINTS_FOR_WIN (config s) \<le> self (score (state_of (onReceivedMiss d s)))
         \<or> POINTS_FOR_WIN (config s) \<le> opponent (score (state_of (onReceivedMiss d s)))
      then emitted s @ [EVENT_GAME_OVER] else emitted s)"
  using assms
  by (simp add: score_onReceivedMiss)
    (simp add: onReceivedMiss_def Let_def outcome_simps emitted_frames config_frames
      score_frames update_body_def split: option.splits)

lemma state_onReceivedMiss:
  assumes "\<not> isInit d" and "ball s = Some m" and "state (config s) \<noteq> GAME_OVER"
  shows "(state (config (state_of (onReceivedMiss d s))) = GAME_OVER) =
     (POINTS_FOR_WIN (config s) \<le> self (score (state_of (onReceivedMiss d s)))
      \<or> POINTS_FOR_WIN (config s) \<le> opponent (score (state_of (onReceivedMiss d s))))"
  using assms
  by (simp add: score_onReceivedMiss)
    (simp add: onReceivedMiss_def Let_def outcome_simps emitted_frames config_frames
      score_frames update_body_def split: option.splits)

lemma emitted_resetTimeoutEnded_single:
  assumes "mode (config s) = SINGLEPLAYER" and "physics_ball (physics s) = Some b"
  shows "emitted (state_of (resetTimeoutEnded s)) =
           (if lives (score s) - 1 < 1 then emitted s @ [EVENT_GAME_OVER] else emitted s)"
  using assms
  by (simp add: resetTimeoutEnded_def Let_def outcome_simps emitted_frames
      split: option.splits)

lemma state_resetTimeoutEnded_single:
  assumes "mode (config s) = SINGLEPLAYER" and "physics_ball (physics s) = Some b"
    and "ball s = Some m" and "state (config s) \<noteq> GAME_OVER"
  shows "(state (config (state_of (resetTimeoutEnded s))) = GAME_OVER)
           = (lives (score s) - 1 < 1)"
  using assms
  by (simp add: resetTimeoutEnded_def Let_def outcome_simps config_frames
      split: option.splits)

lemma score_animate_hit:
  "score (state_of (animate_hit s)) = score s
   \<or> score (state_of (animate_hit s)) = (score s)\<lparr>self := self (score s) + 1\<rparr>"
  using score_onBallPaddleCollision
  by (simp add: animate_hit_def Let_def split: option.splits)

lemma score_animate_physics: "score (state_of (animate_physics b s)) = score s"
  by (simp add: animate_physics_def score_updateBall update_body_def)

lemma score_onBallTableCollision: "score (state_of (onBallTableCollision b n s)) = score s"
  by (simp add: onBallTableCollision_def split: option.splits)

lemma score_onReceivedRequestCountdown: "score (onReceivedRequestCountdown s) = score s"
  by (simp add: onReceivedRequestCountdown_def requestCountdown_def score_countdown)

lemma score_startGame: "score (startGame s) = score s"
  by (simp add: startGame_def requestCountdown_def score_countdown send_def Let_def)

lemma highest_fireTimeout:
  "highest (score s) \<le> highest (score (state_of (fireTimeout h s)))"
proof (cases "mode (config s)")
  case SINGLEPLAYER
  then show ?thesis
    by (simp add: fireTimeout_def score_resetTimeoutEnded_single split: option.splits)
next
  case MULTIPLAYER
  then show ?thesis
    by (simp add: fireTimeout_def score_resetTimeoutEnded_multi split: option.splits)
qed

lemma score_fireInterval: "score (state_of (fireInterval h s)) = score s"
  by (simp add: fireInterval_def score_countdown_callback split: option.splits)

lemma highest_restartGame: "highest (score (restartGame s)) = 0"
  by (simp add: restartGame_def resetScore_def Let_def score_countdown emit_RESTART_GAME_def)


subsection \<open>Lengths and clamping\<close>

lemma length_v_pos_z: "vec_z a \<noteq> 0 \<Longrightarrow> 0 < length_v a"
proof -
  assume "vec_z a \<noteq> 0"
  then have "0 < vec_z a * vec_z a"
    by (simp add: zero_less_mult_iff) arith
  moreover have "0 \<le> vec_x a * vec_x a" and "0 \<le> vec_y a * vec_y a"
    by simp_all
  ultimately have "0 < vec_x a * vec_x a + vec_y a * vec_y a + vec_z a * vec_z a"
    by arith
  then show ?thesis
    by (simp add: length_v_def)
qed

lemma sqrt_16: "sqrt 16 = 4"
proof -
  have "sqrt 16 = sqrt (4 * 4)" by simp
  also have "\<dots> = 4" by (simp only: real_sqrt_abs2 abs_numeral)
  finally show ?thesis .
qed

lemma length_v_axis:
  "length_v \<lparr>vec_x = a, vec_y = 0, vec_z = 0\<rparr> = \<bar>a\<bar>"
  "length_v \<lparr>vec_x = 0, vec_y = a, vec_z = 0\<rparr> = \<bar>a\<bar>"
  "length_v \<lparr>vec_x = 0, vec_y = 0, vec_z = a\<rparr> = \<bar>a\<bar>"
  by (simp_all add: length_v_def)

lemma cap_between:
  "min a b \<le> cap v a b" "cap v a b \<le> max a b"
  "min b a \<le> cap v a b" "cap v a b \<le> max b a"
  by (auto simp add: cap_def)

subsection \<open>What the handlers do to the position difference\<close>

lemma bpd_restartPingpongTimeout:
  "ballPositionDifference (restartPingpongTimeout s) = ballPositionDifference s"
  by (simp add: restartPingpongTimeout_def Let_def setTimeout_def split: prod.splits)

lemma bpd_addBall: "ballPositionDifference (state_of (addBall s)) = ballPositionDifference s"
  by (simp add: addBall_def Let_def outcome_simps bpd_restartPingpongTimeout
      split: option.splits)

lemma bpd_onGameOver:
  "ballPositionDifference (state_of (onGameOver s)) = ballPositionDifference s"
  by (simp add: onGameOver_def split: option.splits)

lemma bpd_emit_GAME_OVER:
  "ballPositionDifference (state_of (emit_GAME_OVER s)) = ballPositionDifference s"
  by (simp add: emit_GAME_OVER_def bpd_onGameOver)

lemma bpd_countdown: "ballPositionDifference (countdown s) = ballPositionDifference s"
  by (simp add: countdown_def setInterval_def)

lemma bpd_countdown_callback:
  "ballPositionDifference (state_of (countdown_callback h n s)) = ballPositionDifference s"
  by (simp add: countdown_callback_def Let_def outcome_simps bpd_addBall send_def
      split: option.splits)

lemma bpd_restartGame: "ballPositionDifference (restartGame s) = ballPositionDifference s"
  by (simp add: restartGame_def resetScore_def Let_def bpd_countdown emit_RESTART_GAME_def)

lemma bpd_updateBall:
  "ballPositionDifference (state_of (updateBall s)) = ballPositionDifference s"
  by (simp add: updateBall_def split: option.splits)

lemma bpd_tick: "ballPositionDifference (tick dt s) = ballPositionDifference s"
  by (simp add: tick_def advance_ballTween_def advance_hitTween_def
      split: option.splits prod.splits)

lemma bpd_resetTimeoutEnded:
  "ballPositionDifference (state_of (resetTimeoutEnded s)) = ballPositionDifference s"
proof (cases "ballHasHitEnemyTable s")
  case True
  then show ?thesis
    by (simp add: resetTimeoutEnded_def Let_def outcome_simps bpd_restartPingpongTimeout
        bpd_emit_GAME_OVER send_def split: option.splits)
next
  case False
  then show ?thesis
    by (simp add: resetTimeoutEnded_def Let_def outcome_simps bpd_restartPingpongTimeout
        bpd_emit_GAME_OVER send_def split: option.splits)
qed

lemma bpd_onReceivedHit:
  "ballPositionDifference (state_of (onReceivedHit d False s)) \<noteq> None
   \<or> ballPositionDifference (state_of (onReceivedHit d False s)) = ballPositionDifference s"
  by (simp add: onReceivedHit_def Let_def outcome_simps update_body_def bpd_addBall
      split: option.splits)

lemma bpd_onReceivedHit_wasMiss:
  "ballPositionDifference (state_of (onReceivedHit d True s)) = ballPositionDifference s"
  by (simp add: onReceivedHit_def Let_def outcome_simps update_body_def bpd_addBall
      split: option.splits)

lemma bpd_onReceivedMiss: "ballPositionDifference (state_of (onReceivedMiss d s)) = None"
  by (simp add: onReceivedMiss_def Let_def outcome_simps update_body_def
      bpd_addBall bpd_emit_GAME_OVER bpd_onReceivedHit_wasMiss split: option.splits)

lemmas bpd_frames = bpd_restartPingpongTimeout bpd_addBall bpd_onGameOver bpd_emit_GAME_OVER
  bpd_countdown bpd_countdown_callback bpd_restartGame bpd_updateBall bpd_tick
  bpd_resetTimeoutEnded

lemma bpd_step:
  assumes "e \<noteq> Frame_hit" and "\<forall>d. e \<noteq> ReceivedMiss d"
    and "ballPositionDifference s \<noteq> None"
  shows "ballPositionDifference (step e s) \<noteq> None"
proof (cases e)
  case (ReceivedHit d)
  with bpd_onReceivedHit [of d s] assms(3) show ?thesis
    by (auto simp add: step_def)
qed (use assms in \<open>simp_all add: step_def bpd_frames animate_physics_def update_body_def
      onBallTableCollision_def onRestartButtonPressed_def onReceivedRestartGame_def
      onReceivedRequestCountdown_def requestCountdown_def startGame_def send_def
      fireTimeout_def fireInterval_def setMultiplayer_def setSingleplayer_def Let_def
      split: option.splits\<close>)

subsection \<open>The tween\<close>

lemma advance_ballTween_twice:
  assumes "0 \<le> a" and "0 \<le> b"
  shows "advance_ballTween b (advance_ballTween a s) = advance_ballTween (a + b) s"
proof (cases "ballTween s")
  case None
  then show ?thesis by (simp add: advance_ballTween_def)
next
  case (Some tw)
  show ?thesis
  proof (cases "0.5 \<le> elapsed tw + a")
    case True
    with Some assms show ?thesis by (simp add: advance_ballTween_def)
  next
    case False
    with Some assms show ?thesis by (simp add: advance_ballTween_def add.assoc)
  qed
qed

lemma advance_hitTween_twice:
  assumes "0 \<le> a" and "0 \<le> b"
  shows "advance_hitTween b (advance_hitTween a s) = advance_hitTween (a + b) s"
proof (cases "hitTween s")
  case None
  then show ?thesis by (simp add: advance_hitTween_def)
next
  case (Some ed)
  obtain e d where ed: "ed = (e, d)" by (cases ed)
  show ?thesis
  proof (cases "d \<le> e + a")
    case True
    with Some ed assms show ?thesis by (simp add: advance_hitTween_def)
  next
    case False
    with Some ed assms show ?thesis by (simp add: advance_hitTween_def add.assoc)
  qed
qed

lemma advance_tweens_commute:
  "advance_ballTween b (advance_hitTween a s) = advance_hitTween a (advance_ballTween b s)"
proof (cases "hitTween s")
  case None
  then show ?thesis
    by (cases "ballTween s") (simp_all add: advance_hitTween_def advance_ballTween_def)
next
  case (Some ed)
  obtain e d where ed: "ed = (e, d)" by (cases ed)
  with Some show ?thesis
    by (cases "ballTween s") (simp_all add: advance_hitTween_def advance_ballTween_def)
qed

lemma tick_tick:
  assumes "0 \<le> a" and "0 \<le> b"
  shows "tick b (tick a s) = tick (a + b) s"
  by (simp add: tick_def advance_tweens_commute advance_hitTween_twice [OF assms]
      advance_ballTween_twice [OF assms])

lemma tick_alpha:
  assumes "ballTween s = Some \<lparr>startValue = 1, elapsed = 0\<rparr>" and "0 \<le> t"
  shows "ballInterpolationAlpha (tick t s) = max 0 (1 - t / 0.5)"
  using assms
  by (simp add: tick_def advance_ballTween_def advance_hitTween_def
      split: option.splits prod.splits)

subsection \<open>The hit starts the tween\<close>

lemma onReceivedHit_starts_tween:
  assumes "ball s = None \<or> physics_ball (physics s) \<noteq> None"
  shows "returned (onReceivedHit d False s)"
    and "ballInterpolationAlpha (state_of (onReceivedHit d False s)) = 1"
    and "ballTween (state_of (onReceivedHit d False s)) = Some \<lparr>startValue = 1, elapsed = 0\<rparr>"
    and "ballPositionDifference (state_of (onReceivedHit d False s)) \<noteq> None"
    and "ball (state_of (onReceivedHit d False s)) \<noteq> None"
    and "physics_ball (physics (state_of (onReceivedHit d False s))) \<noteq> None"
proof -
  have "returned (onReceivedHit d False s)
    \<and> ballInterpolationAlpha (state_of (onReceivedHit d False s)) = 1
    \<and> ballTween (state_of (onReceivedHit d False s)) = Some \<lparr>startValue = 1, elapsed = 0\<rparr>
    \<and> ballPositionDifference (state_of (onReceivedHit d False s)) \<noteq> None
    \<and> ball (state_of (onReceivedHit d False s)) \<noteq> None
    \<and> physics_ball (physics (state_of (onReceivedHit d False s))) \<noteq> None"
  proof (cases "ball s")
    case None
    then show ?thesis
      by (simp add: onReceivedHit_def addBall_def restartPingpongTimeout_def helper_defs Let_def
          split: prod.splits)
  next
    case (Some m)
    with assms obtain b where "physics_ball (physics s) = Some b" by auto
    with Some show ?thesis
      by (simp add: onReceivedHit_def helper_defs Let_def)
  qed
  then show "returned (onReceivedHit d False s)"
    and "ballInterpolationAlpha (state_of (onReceivedHit d False s)) = 1"
    and "ballTween (state_of (onReceivedHit d False s)) = Some \<lparr>startValue = 1, elapsed = 0\<rparr>"
    and "ballPositionDifference (state_of (onReceivedHit d False s)) \<noteq> None"
    and "ball (state_of (onReceivedHit d False s)) \<noteq> None"
    and "physics_ball (physics (state_of (onReceivedHit d False s))) \<noteq> None"
    by simp_all
qed

lemma ball_tick: "ball (tick dt s) = ball s" "physics (tick dt s) = physics s"
  by (simp_all add: tick_def advance_ballTween_def advance_hitTween_def
      split: option.splits prod.splits)

lemma updateBall_renders:
  assumes "physics_ball (physics s) = Some b" and "ball s = Some m"
  shows "updateBall s =
           Returned (s\<lparr>ball := Some (m\<lparr>mesh_position :=
              (case ballPositionDifference s of
                 None \<Rightarrow> position b
               | Some d \<Rightarrow>
                   \<lparr>vec_x = vec_x (position b) + vec_x d * ballInterpolationAlpha s,
                    vec_y = vec_y (position b) + vec_y d * ballInterpolationAlpha s,
                    vec_z = vec_z (position b) + vec_z d * ballInterpolationAlpha s\<rparr>),
              mesh_quaternion := quaternion b\<rparr>)\<rparr>)"
  using assms
  by (simp add: updateBall_def lerpVectors_def addVectors_def split: option.splits)

lemma updateBall_alpha_0:
  assumes "physics_ball (physics s) \<noteq> None" and "ball s \<noteq> None"
    and "ballInterpolationAlpha s = 0"
  shows "returned (updateBall s)
     \<and> map_option mesh_position (ball (state_of (updateBall s)))
         = map_option position (physics_ball (physics s))
     \<and> ballPositionDifference (state_of (updateBall s)) = ballPositionDifference s"
proof -
  from assms obtain b m where "physics_ball (physics s) = Some b" and "ball s = Some m"
    by auto
  with assms(3) show ?thesis
    by (simp add: updateBall_renders split: option.splits)
qed

lemma bpd_onBallPaddleCollision:
  assumes "\<not> hitTween_isActive s" and "ball s \<noteq> None" and "physics_ball (physics s) \<noteq> None"
  shows "ballPositionDifference (state_of (onBallPaddleCollision pt s)) = None"
proof -
  from assms obtain b m where bm: "physics_ball (physics s) = Some b" "ball s = Some m"
    by auto
  have h: "returned (ballHitAnimation x) = (\<not> (\<not> hitTween_isActive x \<and> hitAvailable x \<and> ball x = None))"
    for x
    by (simp add: ballHitAnimation_def split: option.splits)
  have a: "ball (state_of (ballHitAnimation x)) = ball x"
    "ballPositionDifference (state_of (ballHitAnimation x)) = ballPositionDifference x" for x
    by (simp_all add: ballHitAnimation_def split: option.splits)
  have c: "ballPositionDifference (state_of (slowdownBall x)) = ballPositionDifference x" for x
    by (simp add: slowdownBall_def Let_def split: option.splits)
  from assms(1) bm show ?thesis
    by (simp add: onBallPaddleCollision_def Let_def outcome_simps h a c send_def
        bpd_restartPingpongTimeout split: option.splits)
qed

subsection \<open>Fields that the timers do not depend on\<close>

lemma timers_ok_update [simp]:
  "timers_ok (config_update f1 s) = timers_ok s"
  "timers_ok (score_update f2 s) = timers_ok s"
  "timers_ok (physics_update f3 s) = timers_ok s"
  "timers_ok (communication_update f4 s) = timers_ok s"
  "timers_ok (emitted_update f5 s) = timers_ok s"
  "timers_ok (ball_update f6 s) = timers_ok s"
  "timers_ok (paddle_update f7 s) = timers_ok s"
  "timers_ok (paddleOpponent_update f8 s) = timers_ok s"
  "timers_ok (crosshair_visible_update f9 s) = timers_ok s"
  "timers_ok (physicsTimeStep_update f10 s) = timers_ok s"
  "timers_ok (ballHasHitEnemyTable_update f11 s) = timers_ok s"
  "timers_ok (resetTimeoutDuration_update f12 s) = timers_ok s"
  "timers_ok (playerRequestedRestart_update f13 s) = timers_ok s"
  "timers_ok (opponentRequestedRestart_update f14 s) = timers_ok s"
  "timers_ok (playerRequestedCountdown_update f15 s) = timers_ok s"
  "timers_ok (opponentRequestedCountdown_update f16 s) = timers_ok s"
  "timers_ok (ballInterpolationAlpha_update f17 s) = timers_ok s"
  "timers_ok (ballPositionDifference_update f18 s) = timers_ok s"
  "timers_ok (ballTween_update f19 s) = timers_ok s"
  "timers_ok (lastHitPosition_update f20 s) = timers_ok s"
  "timers_ok (hitAvailable_update f21 s) = timers_ok s"
  "timers_ok (hitTween_update f22 s) = timers_ok s"
  by (simp_all add: timers_ok_def)

lemma calm_update [simp]:
  "calm (score_update f2 s) = calm s"
  "calm (physics_update f3 s) = calm s"
  "calm (communication_update f4 s) = calm s"
  "calm (emitted_update f5 s) = calm s"
  "calm (ball_update f6 s) = calm s"
  "calm (paddle_update f7 s) = calm s"
  "calm (paddleOpponent_update f8 s) = calm s"
  "calm (crosshair_visible_update f9 s) = calm s"
  "calm (physicsTimeStep_update f10 s) = calm s"
  "calm (ballHasHitEnemyTable_update f11 s) = calm s"
  "calm (resetTimeoutDuration_update f12 s) = calm s"
  "calm (playerRequestedRestart_update f13 s) = calm s"
  "calm (opponentRequestedRestart_update f14 s) = calm s"
  "calm (playerRequestedCountdown_update f15 s) = calm s"
  "calm (opponentRequestedCountdown_update f16 s) = calm s"
  "calm (ballInterpolationAlpha_update f17 s) = calm s"
  "calm (ballPositionDifference_update f18 s) = calm s"
  "calm (ballTween_update f19 s) = calm s"
  "calm (lastHitPosition_update f20 s) = calm s"
  "calm (hitAvailable_update f21 s) = calm s"
  "calm (hitTween_update f22 s) = calm s"
  by (simp_all add: calm_def)

lemma timers_ok_cases:
  assumes "timers_ok s"
  obtains (none) "timeouts (time s) = []"
  | (one) h d where "timeouts (time s) = [(h, d)]" and "resetBallTimeout s = Some h"
proof (cases "timeouts (time s)")
  case Nil
  then show ?thesis by (rule none)
next
  case (Cons p ps)
  obtain h d where p: "p = (h, d)" by (cases p)
  with Cons assms have "ps = []" and "resetBallTimeout s = Some h"
    by (simp_all add: timers_ok_def)
  with Cons p show ?thesis by (intro one) simp_all
qed

lemma no_timer_ok: "timeouts (time s) = [] \<Longrightarrow> timers_ok s"
  by (simp add: timers_ok_def)

subsection \<open>Clearing and scheduling\<close>

lemma cleared:
  assumes "timers_ok s"
  shows "timeouts (clearTimeout (time s) (resetBallTimeout s)) = []"
  using assms by (cases rule: timers_ok_cases) (simp_all add: clearTimeout_def)

lemma restartPingpongTimeout_timers:
  assumes "timers_ok s"
  shows "timeouts (time (restartPingpongTimeout s)) =
           (if state (config s) = GAME_OVER then []
            else [(nextHandle (time s), resetTimeoutDuration s)])"
    and "timers_ok (restartPingpongTimeout s)"
  using assms
  by (cases rule: timers_ok_cases;
      simp add: restartPingpongTimeout_def Let_def setTimeout_def clearTimeout_def
        timers_ok_def)+

lemma calm_restartPingpongTimeout:
  assumes "timers_ok s" and "state (config s) = PLAYING \<or> state (config s) = GAME_OVER"
  shows "calm (restartPingpongTimeout s)"
  using assms restartPingpongTimeout_timers [OF assms(1)]
  by (auto simp add: calm_def config_restartPingpongTimeout)

lemma timers_ok_addBall:
  assumes "timers_ok s"
  shows "timers_ok (state_of (addBall s))"
  using assms
  by (simp add: addBall_def Let_def outcome_simps restartPingpongTimeout_timers
      split: option.splits)

lemma calm_addBall:
  assumes "timers_ok s"
  shows "calm (state_of (addBall s))"
  using assms timers_ok_addBall [OF assms]
  by (simp add: calm_def config_addBall)

lemma onGameOver_timers:
  assumes "timers_ok s"
  shows "timeouts (time (state_of (onGameOver s))) =
           (if ball s = None then timeouts (time s) else [])"
    and "timers_ok (state_of (onGameOver s))"
  using assms
  by (simp_all add: onGameOver_def cleared no_timer_ok split: option.splits)

lemma emit_GAME_OVER_timers:
  assumes "timers_ok s"
  shows "timeouts (time (state_of (emit_GAME_OVER s))) =
           (if ball s = None then timeouts (time s) else [])"
    and "timers_ok (state_of (emit_GAME_OVER s))"
  using assms by (simp_all add: emit_GAME_OVER_def onGameOver_timers)

lemma calm_emit_GAME_OVER:
  assumes "calm s"
  shows "calm (state_of (emit_GAME_OVER s))"
  using assms
  by (auto simp add: calm_def emit_GAME_OVER_timers config_emit_GAME_OVER)

lemma calm_cleared:
  assumes "timers_ok s"
  shows "calm (s\<lparr>time := clearTimeout (time s) (resetBallTimeout s)\<rparr>)"
    and "timers_ok (s\<lparr>time := clearTimeout (time s) (resetBallTimeout s)\<rparr>)"
  using cleared [OF assms] by (simp_all add: calm_def timers_ok_def)

lemma calm_intervals:
  assumes "timeouts t = timeouts (time s)"
  shows "calm (s\<lparr>time := t\<rparr>) = calm s" and "timers_ok (s\<lparr>time := t\<rparr>) = timers_ok s"
  using assms by (simp_all add: calm_def timers_ok_def)

lemma calm_playing:
  assumes "timers_ok s"
  shows "calm (s\<lparr>config := (config s)\<lparr>state := PLAYING\<rparr>\<rparr>)"
  using assms by (simp add: calm_def)

subsection \<open>The handlers keep the timers in order\<close>

lemma calm_timers_ok: "calm s \<Longrightarrow> timers_ok s"
  by (simp add: calm_def)

lemma calm_onReceivedHit:
  assumes "timers_ok s"
  shows "calm (state_of (onReceivedHit d w s))"
  using assms
  by (simp add: onReceivedHit_def Let_def outcome_simps update_body_def calm_cleared
      calm_addBall physics_increaseSpeed_def split: option.splits)

lemma calm_onReceivedMiss:
  assumes "timers_ok s"
  shows "calm (state_of (onReceivedMiss d s))"
proof -
  define s1 where "s1 = s\<lparr>physics := (physics s)\<lparr>speed := 1\<rparr>,
                 ballPositionDifference := None,
                 time := clearTimeout (time s) (resetBallTimeout s)\<rparr>"
  have c1: "calm s1"
    using calm_cleared(1) [OF assms] by (simp add: s1_def calm_def timers_ok_def)
  define r where "r = (if \<not> isInit d then
           Returned
             (if data_ballHasHitEnemyTable d
              then s1\<lparr>score := (score s1)\<lparr>opponent := opponent (score s1) + 1\<rparr>\<rparr>
              else s1\<lparr>score := (score s1)\<lparr>self := self (score s1) + 1\<rparr>\<rparr>)
         else addBall s1)"
  have c2: "calm (state_of r)"
    using c1 by (simp add: r_def calm_addBall calm_timers_ok)
  have c3: "calm (state_of (onReceivedHit d True (update_body f (state_of r))))" for f
    using c2 by (intro calm_onReceivedHit) (simp add: update_body_def calm_timers_ok)
  have "onReceivedMiss d s =
      andThen r (\<lambda>s2.
           if self (score s2) \<ge> POINTS_FOR_WIN (config s2)
              \<or> opponent (score s2) \<ge> POINTS_FOR_WIN (config s2)
           then emit_GAME_OVER s2
           else
             (case physics_ball (physics s2) of
                None \<Rightarrow> Threw s2
              | Some b \<Rightarrow>
                  andThen
                    (onReceivedHit d True
                       (update_body
                          (\<lambda>b. b\<lparr>angularVelocity := \<lparr>vec_x = 0, vec_y = 0, vec_z = 0\<rparr>\<rparr>) s2))
                    (\<lambda>s3. Returned (s3\<lparr>config := (config s3)\<lparr>state := PLAYING\<rparr>\<rparr>))))"
    by (simp add: onReceivedMiss_def Let_def s1_def r_def)
  then show ?thesis
    using c2 c3
    by (simp add: outcome_simps calm_emit_GAME_OVER calm_playing calm_timers_ok
        split: option.splits)
qed

lemma frame_ballHitAnimation:
  "time (state_of (ballHitAnimation s)) = time s"
  "config (state_of (ballHitAnimation s)) = config s"
  "resetBallTimeout (state_of (ballHitAnimation s)) = resetBallTimeout s"
  by (simp_all add: ballHitAnimation_def split: option.splits)

lemma frame_slowdownBall:
  "time (state_of (slowdownBall s)) = time s"
  "config (state_of (slowdownBall s)) = config s"
  "resetBallTimeout (state_of (slowdownBall s)) = resetBallTimeout s"
  by (simp_all add: slowdownBall_def Let_def split: option.splits)

lemma calm_frame:
  assumes "time s' = time s" and "config s' = config s"
    and "resetBallTimeout s' = resetBallTimeout s"
  shows "calm s' = calm s" and "timers_ok s' = timers_ok s"
  using assms by (simp_all add: calm_def timers_ok_def)

lemma calm_ballHitAnimation:
  "calm (state_of (ballHitAnimation s)) = calm s"
  "timers_ok (state_of (ballHitAnimation s)) = timers_ok s"
  by (rule calm_frame; simp add: frame_ballHitAnimation)+

lemma calm_slowdownBall:
  "calm (state_of (slowdownBall s)) = calm s"
  "timers_ok (state_of (slowdownBall s)) = timers_ok s"
  by (rule calm_frame; simp add: frame_slowdownBall)+

lemma calm_onBallPaddleCollision:
  assumes "calm s" and "state (config s) = PLAYING \<or> state (config s) = GAME_OVER"
  shows "calm (state_of (onBallPaddleCollision pt s))"
  using assms
  by (simp add: onBallPaddleCollision_def Let_def outcome_simps calm_ballHitAnimation
      calm_slowdownBall calm_restartPingpongTimeout calm_timers_ok frame_ballHitAnimation
      send_def split: option.splits)

lemma calm_countdown:
  "calm (countdown s) = (timers_ok s \<and> timeouts (time s) = [])"
  "timers_ok (countdown s) = timers_ok s"
  by (auto simp add: countdown_def setInterval_def calm_def timers_ok_def)

lemma calm_countdown_callback:
  assumes "calm s"
  shows "calm (state_of (countdown_callback h n s))"
  using assms
  by (simp add: countdown_callback_def Let_def outcome_simps calm_intervals calm_addBall
      calm_timers_ok send_def clearInterval_def split: option.splits)

lemma calm_no_timer: "timeouts (time s) = [] \<Longrightarrow> calm s"
  by (simp add: calm_def timers_ok_def)

lemma calm_restartGame: "timeouts (time s) = [] \<Longrightarrow> calm (restartGame s)"
  by (simp add: restartGame_def resetScore_def Let_def calm_countdown emit_RESTART_GAME_def
      calm_no_timer no_timer_ok)

lemma frame_updateBall:
  "time (state_of (updateBall s)) = time s"
  "config (state_of (updateBall s)) = config s"
  "resetBallTimeout (state_of (updateBall s)) = resetBallTimeout s"
  by (simp_all add: updateBall_def split: option.splits)

lemma frame_tick:
  "time (tick dt s) = time s"
  "config (tick dt s) = config s"
  "resetBallTimeout (tick dt s) = resetBallTimeout s"
  by (simp_all add: tick_def advance_ballTween_def advance_hitTween_def
      split: option.splits prod.splits)

subsection \<open>No reset timer once the game is over\<close>

lemma quiet_update [simp]:
  "quiet (score_update f2 s) = quiet s"
  "quiet (physics_update f3 s) = quiet s"
  "quiet (communication_update f4 s) = quiet s"
  "quiet (emitted_update f5 s) = quiet s"
  "quiet (ball_update f6 s) = quiet s"
  "quiet (paddle_update f7 s) = quiet s"
  "quiet (paddleOpponent_update f8 s) = quiet s"
  "quiet (crosshair_visible_update f9 s) = quiet s"
  "quiet (physicsTimeStep_update f10 s) = quiet s"
  "quiet (ballHasHitEnemyTable_update f11 s) = quiet s"
  "quiet (resetTimeoutDuration_update f12 s) = quiet s"
  "quiet (playerRequestedRestart_update f13 s) = quiet s"
  "quiet (opponentRequestedRestart_update f14 s) = quiet s"
  "quiet (playerRequestedCountdown_update f15 s) = quiet s"
  "quiet (opponentRequestedCountdown_update f16 s) = quiet s"
  "quiet (ballInterpolationAlpha_update f17 s) = quiet s"
  "quiet (ballPositionDifference_update f18 s) = quiet s"
  "quiet (ballTween_update f19 s) = quiet s"
  "quiet (lastHitPosition_update f20 s) = quiet s"
  "quiet (hitAvailable_update f21 s) = quiet s"
  "quiet (hitTween_update f22 s) = quiet s"
  by (simp_all add: quiet_def)

lemma calm_quiet: "calm s \<Longrightarrow> quiet s"
  by (auto simp add: calm_def quiet_def)

lemma quiet_timers_ok: "quiet s \<Longrightarrow> timers_ok s"
  by (simp add: quiet_def)

lemma quiet_frame:
  assumes "time s' = time s" and "config s' = config s"
    and "resetBallTimeout s' = resetBallTimeout s"
  shows "quiet s' = quiet s"
  using assms by (simp add: quiet_def timers_ok_def)

lemma quiet_intervals:
  assumes "timeouts t = timeouts (time s)"
  shows "quiet (s\<lparr>time := t\<rparr>) = quiet s"
  using assms by (simp add: quiet_def timers_ok_def)

lemma quiet_mode: "quiet (s\<lparr>config := (config s)\<lparr>mode := m\<rparr>\<rparr>) = quiet s"
  by (simp add: quiet_def timers_ok_def)

lemma quiet_restartPingpongTimeout:
  assumes "quiet s"
  shows "quiet (restartPingpongTimeout s)"
  using restartPingpongTimeout_timers [OF quiet_timers_ok [OF assms]]
  by (simp add: quiet_def config_restartPingpongTimeout)

lemma quiet_emit_GAME_OVER:
  assumes "quiet s"
  shows "quiet (state_of (emit_GAME_OVER s))"
  using assms emit_GAME_OVER_timers [OF quiet_timers_ok [OF assms]]
  by (simp add: quiet_def config_emit_GAME_OVER)

lemma quiet_ballHitAnimation: "quiet (state_of (ballHitAnimation s)) = quiet s"
  by (rule quiet_frame) (simp_all add: frame_ballHitAnimation)

lemma quiet_slowdownBall: "quiet (state_of (slowdownBall s)) = quiet s"
  by (rule quiet_frame) (simp_all add: frame_slowdownBall)

lemma quiet_updateBall: "quiet (state_of (updateBall s)) = quiet s"
  by (rule quiet_frame) (simp_all add: frame_updateBall)

lemma quiet_tick: "quiet (tick dt s) = quiet s"
  by (rule quiet_frame) (simp_all add: frame_tick)

lemma quiet_onBallPaddleCollision:
  assumes "quiet s"
  shows "quiet (state_of (onBallPaddleCollision pt s))"
  using assms
  by (simp add: onBallPaddleCollision_def Let_def outcome_simps quiet_ballHitAnimation
      quiet_slowdownBall quiet_restartPingpongTimeout send_def split: option.splits)

lemma quiet_resetTimeoutEnded:
  assumes "quiet s"
  shows "quiet (state_of (resetTimeoutEnded s))"
proof (cases "ballHasHitEnemyTable s")
  case True
  with assms show ?thesis
    by (simp add: resetTimeoutEnded_def Let_def outcome_simps quiet_emit_GAME_OVER
        quiet_restartPingpongTimeout send_def split: option.splits)
next
  case False
  with assms show ?thesis
    by (simp add: resetTimeoutEnded_def Let_def outcome_simps quiet_emit_GAME_OVER
        quiet_restartPingpongTimeout send_def split: option.splits)
qed

lemma quiet_fireTimeout:
  assumes "quiet s"
  shows "quiet (state_of (fireTimeout h s))"
proof (cases "map_of (timeouts (time s)) h")
  case None
  with assms show ?thesis by (simp add: fireTimeout_def)
next
  case (Some d)
  have "quiet (s\<lparr>time := (time s)\<lparr>timeouts := filter (\<lambda>(k, d). k \<noteq> h) (timeouts (time s))\<rparr>\<rparr>)"
    using quiet_timers_ok [OF assms] assms
    by (cases rule: timers_ok_cases) (simp_all add: quiet_def timers_ok_def)
  with Some show ?thesis
    by (simp add: fireTimeout_def quiet_resetTimeoutEnded)
qed

lemma quiet_countdown:
  assumes "timers_ok s"
  shows "quiet (countdown s)"
  using assms by (simp add: countdown_def setInterval_def quiet_def timers_ok_def)

lemma quiet_countdown_callback:
  assumes "quiet s"
  shows "quiet (state_of (countdown_callback h n s))"
  using assms
  by (simp add: countdown_callback_def Let_def outcome_simps quiet_intervals calm_addBall
      calm_quiet quiet_timers_ok calm_intervals send_def clearInterval_def
      split: option.splits)

lemma quiet_restartGame:
  assumes "quiet s"
  shows "quiet (restartGame s)"
  using assms
  by (simp add: restartGame_def resetScore_def Let_def quiet_countdown emit_RESTART_GAME_def
      quiet_timers_ok)

lemma quiet_requestCountdown:
  assumes "quiet s"
  shows "quiet (requestCountdown s)"
  using assms by (simp add: requestCountdown_def quiet_countdown quiet_timers_ok)

lemma quiet_step:
  assumes "quiet s"
  shows "quiet (step e s)"
proof (cases e)
  case Frame_hit
  with assms show ?thesis
    by (simp add: step_def animate_hit_def Let_def quiet_onBallPaddleCollision
        split: option.splits)
next
  case (Frame_physics b)
  with assms show ?thesis
    by (simp add: step_def animate_physics_def quiet_updateBall update_body_def)
next
  case (Tick dt)
  with assms show ?thesis
    by (simp add: step_def quiet_tick)
next
  case (BallTableCollision b n)
  with assms show ?thesis
    by (simp add: step_def onBallTableCollision_def split: option.splits)
next
  case RestartButtonPressed
  with assms show ?thesis
    by (simp add: step_def onRestartButtonPressed_def quiet_restartGame send_def)
next
  case (ReceivedHit d)
  with assms show ?thesis
    by (simp add: step_def calm_quiet calm_onReceivedHit quiet_timers_ok)
next
  case (ReceivedMiss d)
  with assms show ?thesis
    by (simp add: step_def calm_quiet calm_onReceivedMiss quiet_timers_ok)
next
  case ReceivedRestartGame
  with assms show ?thesis
    by (simp add: step_def onReceivedRestartGame_def quiet_restartGame)
next
  case ReceivedRequestCountdown
  with assms show ?thesis
    by (simp add: step_def onReceivedRequestCountdown_def quiet_requestCountdown)
next
  case (TimeoutFired h)
  with assms show ?thesis
    by (simp add: step_def quiet_fireTimeout)
next
  case (IntervalFired h)
  with assms show ?thesis
    by (simp add: step_def fireInterval_def quiet_countdown_callback split: option.splits)
next
  case SetMultiplayer
  with assms show ?thesis
    by (simp add: step_def setMultiplayer_def quiet_mode)
next
  case SetSingleplayer
  with assms show ?thesis
    by (simp add: step_def setSingleplayer_def quiet_mode)
next
  case StartGame
  with assms show ?thesis
    by (simp add: step_def startGame_def Let_def quiet_countdown quiet_requestCountdown
        quiet_timers_ok send_def)
qed

lemma quiet_start: "quiet (setup_scene (constructed env))"
  by (simp add: setup_scene_def constructed_def Let_def quiet_def timers_ok_def)

lemma reachable_quiet: "reachable s \<Longrightarrow> quiet s"
  by (induction rule: reachable.induct) (simp_all add: quiet_start quiet_step)

lemma reachable_run: "reachable s \<Longrightarrow> reachable (run es s)"
proof (induction es arbitrary: s)
  case Nil
  then show ?case by (simp add: run_def)
next
  case (Cons e es)
  from Cons.prems have "reachable (step e s)" by (rule reachable.reach_step)
  then have "reachable (run es (step e s))" by (rule Cons.IH)
  then show ?case by (simp add: run_def)
qed

lemma calm_step_game_over:
  assumes "state (config s) = GAME_OVER" and "timeouts (time s) = []"
  shows "calm (step e s)"
proof -
  from assms(2) have c: "calm s" and t: "timers_ok s"
    by (simp_all add: calm_no_timer no_timer_ok)
  show ?thesis
  proof (cases e)
    case Frame_hit
    with c assms(1) show ?thesis
      by (simp add: step_def animate_hit_def Let_def calm_onBallPaddleCollision
          split: option.splits)
  next
    case (Frame_physics b)
    with c assms(1) show ?thesis
      by (simp add: step_def animate_physics_def)
  next
    case (Tick dt)
    with c show ?thesis
      by (simp add: step_def calm_frame(1) [of "tick dt s" s] frame_tick)
  next
    case (BallTableCollision b n)
    with c show ?thesis
      by (simp add: step_def onBallTableCollision_def split: option.splits)
  next
    case RestartButtonPressed
    with assms(2) show ?thesis
      by (simp add: step_def onRestartButtonPressed_def calm_restartGame send_def)
  next
    case (ReceivedHit d)
    with t show ?thesis
      by (simp add: step_def calm_onReceivedHit)
  next
    case (ReceivedMiss d)
    with t show ?thesis
      by (simp add: step_def calm_onReceivedMiss)
  next
    case ReceivedRestartGame
    with assms(2) show ?thesis
      by (simp add: step_def onReceivedRestartGame_def calm_restartGame)
  next
    case ReceivedRequestCountdown
    with c t assms(2) show ?thesis
      by (simp add: step_def onReceivedRequestCountdown_def requestCountdown_def
          calm_countdown)
  next
    case (TimeoutFired h)
    with c assms(2) show ?thesis
      by (simp add: step_def fireTimeout_def)
  next
    case (IntervalFired h)
    with c show ?thesis
      by (simp add: step_def fireInterval_def calm_countdown_callback split: option.splits)
  next
    case SetMultiplayer
    with assms(2) show ?thesis
      by (simp add: step_def setMultiplayer_def calm_no_timer)
  next
    case SetSingleplayer
    with assms(2) show ?thesis
      by (simp add: step_def setSingleplayer_def calm_no_timer)
  next
    case StartGame
    with c t assms(2) show ?thesis
      by (simp add: step_def startGame_def Let_def requestCountdown_def calm_countdown
          send_def)
  qed
qed

subsection \<open>The example scenes are reachable\<close>

lemma reachable_fresh_scene: "reachable fresh_scene"
  unfolding fresh_scene_def by (rule reachable.reach_start)

lemma reachable_single_started: "reachable single_started"
  unfolding single_started_def by (rule reachable_run [OF reachable_fresh_scene])

lemma reachable_single_over: "reachable single_over"
  unfolding single_over_def by (rule reachable_run [OF reachable_single_started])

subsection \<open>Intervals\<close>

lemma intervals_restartPingpongTimeout:
  "intervals (time (restartPingpongTimeout s)) = intervals (time s)"
  by (simp add: restartPingpongTimeout_def Let_def setTimeout_def clearTimeout_def)

lemma intervals_addBall: "intervals (time (state_of (addBall s))) = intervals (time s)"
  by (simp add: addBall_def Let_def outcome_simps intervals_restartPingpongTimeout
      split: option.splits)

lemma intervals_countdown:
  "intervals (time (countdown s)) = intervals (time s) @ [(nextHandle (time s), 2)]"
  by (simp add: countdown_def setInterval_def)

lemma intervals_tick_one:
  assumes "intervals (time s) = [(h, n)]"
  shows "intervals (time (step (IntervalFired h) s)) = (if n - 1 < 0 then [] else [(h, n - 1)])"
  using assms
  by (simp add: step_def fireInterval_def countdown_callback_def Let_def outcome_simps
      intervals_addBall clearInterval_def send_def split: option.splits)

lemma intervals_cancel:
  assumes "map_of (intervals (time s)) h = Some n" and "n \<le> 0"
  shows "h \<notin> fst ` set (intervals (time (step (IntervalFired h) s)))"
  using assms
  by (auto simp add: step_def fireInterval_def countdown_callback_def Let_def outcome_simps
      intervals_addBall clearInterval_def send_def split: option.splits)

subsection \<open>The local hit and the time step\<close>

lemma onBallPaddleCollision_multiplayer:
  assumes "mode (config s) = MULTIPLAYER" and "\<not> hitTween_isActive s"
    and "physics_ball (physics s) = Some b0" and "ball s = Some m"
  shows "returned (onBallPaddleCollision pt s)"
    and "physics_ball (physics (state_of (onBallPaddleCollision pt s)))
           = Some (bounce (physics s) b0 (paddle s))"
    and "physicsTimeStep (state_of (onBallPaddleCollision pt s))
           = physicsTimeStep (state_of (slowdownBall
               (s\<lparr>physics := (physics s)\<lparr>physics_ball := Some (bounce (physics s) b0 (paddle s))\<rparr>\<rparr>)))"
  using assms
  by (simp_all add: onBallPaddleCollision_def with_physics_def physics_onBallPaddleCollision_def
      ballHitAnimation_def restartPingpongTimeout_def slowdownBall_def send_def
      hitTween_isActive_def Let_def andThen_def state_of_def returned_def
      split: prod.splits option.splits)

lemma onBallPaddleCollision_singleplayer:
  assumes "mode (config s) = SINGLEPLAYER"
  shows "physicsTimeStep (state_of (onBallPaddleCollision pt s)) = physicsTimeStep s"
  using assms
  by (simp add: onBallPaddleCollision_def with_physics_def physics_onBallPaddleCollision_def
      ballHitAnimation_def restartPingpongTimeout_def
      hitTween_isActive_def Let_def andThen_def state_of_def
      split: prod.splits option.splits)

section \<open>Interpolation after a remote hit\<close>

text \<open>
  C1 (as the code has it). When a Hit of the peer is received (\<^verbatim>\<open>onReceivedHit\<close> with
  \<open>wasMiss = false\<close>, the ball having a body), \<open>ballInterpolationAlpha\<close> is set to 1
  and \<open>ballPositionDifference\<close> is set. The tween then takes the alpha linearly to 0:
  \<open>t\<close> seconds after the hit it is \<open>1 - t / 0.5\<close>, strictly less at each later moment
  of the window, and 0 from 0.5 seconds on (ticks add up). The tween changes the alpha
  only: \<open>ballPositionDifference\<close> is not cleared when the alpha reaches 0. It stays set
  under every event but the frame with a local hit of the paddle and a received Miss,
  which clear it. With the alpha at 0, \<^verbatim>\<open>updateBall\<close> renders the ball at its simulated
  position and keeps the difference.
\<close>

theorem ballInterpolationAlpha_decays:
  assumes "ball s = None \<or> physics_ball (physics s) \<noteq> None" and "0 \<le> t" and "t \<le> u"
  shows "returned (onReceivedHit d False s)
     \<and> ballInterpolationAlpha (state_of (onReceivedHit d False s)) = 1
     \<and> ballPositionDifference (state_of (onReceivedHit d False s)) \<noteq> None
     \<and> ballInterpolationAlpha (tick t (state_of (onReceivedHit d False s)))
         = max 0 (1 - t / 0.5)
     \<and> (t < u \<and> t < 0.5 \<longrightarrow>
          ballInterpolationAlpha (tick u (state_of (onReceivedHit d False s)))
            < ballInterpolationAlpha (tick t (state_of (onReceivedHit d False s))))
     \<and> (0.5 \<le> t \<longrightarrow> ballInterpolationAlpha (tick t (state_of (onReceivedHit d False s))) = 0)
     \<and> tick (u - t) (tick t (state_of (onReceivedHit d False s)))
         = tick u (state_of (onReceivedHit d False s))
     \<and> ballPositionDifference (tick t (state_of (onReceivedHit d False s)))
         = ballPositionDifference (state_of (onReceivedHit d False s))
     \<and> (0.5 \<le> t \<longrightarrow>
          returned (updateBall (tick t (state_of (onReceivedHit d False s))))
          \<and> map_option mesh_position
               (ball (state_of (updateBall (tick t (state_of (onReceivedHit d False s))))))
             = map_option position
                 (physics_ball (physics (tick t (state_of (onReceivedHit d False s)))))
          \<and> ballPositionDifference
               (state_of (updateBall (tick t (state_of (onReceivedHit d False s))))) \<noteq> None)
     \<and> (e \<noteq> Frame_hit \<and> (\<forall>d'. e \<noteq> ReceivedMiss d') \<longrightarrow>
          ballPositionDifference (step e (tick t (state_of (onReceivedHit d False s)))) \<noteq> None)
     \<and> ballPositionDifference (state_of (onReceivedMiss d' s')) = None
     \<and> (\<not> hitTween_isActive s' \<and> ball s' \<noteq> None \<and> physics_ball (physics s') \<noteq> None \<longrightarrow>
          ballPositionDifference (state_of (onBallPaddleCollision pt s')) = None)"
proof -
  define s1 where "s1 = state_of (onReceivedHit d False s)"
  note hit = onReceivedHit_starts_tween [OF assms(1), of d, folded s1_def]
  have alpha: "ballInterpolationAlpha (tick x s1) = max 0 (1 - x / 0.5)" if "0 \<le> x" for x
    using hit(3) that by (rule tick_alpha)
  have dec: "ballInterpolationAlpha (tick u s1) < ballInterpolationAlpha (tick t s1)"
    if "t < u \<and> t < 0.5"
  proof -
    from that assms(2) have "0 \<le> u" by simp
    with that assms(2) show ?thesis
      by (simp add: alpha max_def)
  qed
  have zero: "ballInterpolationAlpha (tick t s1) = 0" if "0.5 \<le> t"
    using that assms(2) by (simp add: alpha max_def)
  have comp: "tick (u - t) (tick t s1) = tick u s1"
    using tick_tick [of t "u - t" s1] assms(2) assms(3) by simp
  have kept: "ballPositionDifference (tick t s1) = ballPositionDifference s1"
    by (rule bpd_tick)
  have render: "returned (updateBall (tick t s1))
          \<and> map_option mesh_position (ball (state_of (updateBall (tick t s1))))
             = map_option position (physics_ball (physics (tick t s1)))
          \<and> ballPositionDifference (state_of (updateBall (tick t s1))) \<noteq> None"
    if "0.5 \<le> t"
    using updateBall_alpha_0 [of "tick t s1"] zero [OF that] hit(4) hit(5) hit(6)
    by (simp add: ball_tick bpd_tick)
  have stays: "ballPositionDifference (step e (tick t s1)) \<noteq> None"
    if "e \<noteq> Frame_hit \<and> (\<forall>d'. e \<noteq> ReceivedMiss d')"
    using that hit(4) by (intro bpd_step) (simp_all add: bpd_tick)
  from hit(1) hit(2) hit(4) alpha [OF assms(2)] dec zero comp kept render stays
    bpd_onReceivedMiss [of d' s'] bpd_onBallPaddleCollision [of s' pt]
  show ?thesis
    unfolding s1_def by blast
qed

text \<open>A quarter of a second after the hit the alpha is one half, after half a second it
  is 0.\<close>

theorem ballInterpolationAlpha_decays_witness:
  "ballInterpolationAlpha (state_of (onReceivedHit hit3 False multi_playing)) = 1
   \<and> ballInterpolationAlpha (tick (1 / 4) (state_of (onReceivedHit hit3 False multi_playing)))
       = 1 / 2
   \<and> ballInterpolationAlpha (tick (1 / 2) (state_of (onReceivedHit hit3 False multi_playing)))
       = 0
   \<and> ballInterpolationAlpha (tick (1 / 2) (state_of (onReceivedHit hit3 False multi_playing)))
       < ballInterpolationAlpha (tick (1 / 4) (state_of (onReceivedHit hit3 False multi_playing)))
   \<and> ballPositionDifference (tick (1 / 2) (state_of (onReceivedHit hit3 False multi_playing)))
       \<noteq> None"
proof -
  have a: "ball multi_playing = None \<or> physics_ball (physics multi_playing) \<noteq> None"
    by (simp add: multi_playing_def env0_def serve_body_def
        model_defs)
  have b: "(0::real) \<le> 1 / 4" "(1::real) / 4 \<le> 1 / 2" "(0::real) \<le> 1 / 2"
    "(1::real) / 2 \<le> 1 / 2"
    by simp_all
  from ballInterpolationAlpha_decays [OF a b(1) b(2), of hit3]
    ballInterpolationAlpha_decays [OF a b(3) b(4), of hit3]
  show ?thesis
    by simp
qed

text \<open>The claim as the spec states it fails: half a second after the Hit of the third
  scenario the alpha is 0 and the difference is still set, and it is still set after
  the next frame and a further second.\<close>

theorem ballPositionDifference_cleared_counterexample:
  "ballInterpolationAlpha (tick (1 / 2) (state_of (onReceivedHit hit3 False multi_playing))) = 0
   \<and> ballPositionDifference (tick (1 / 2) (state_of (onReceivedHit hit3 False multi_playing)))
       = Some \<lparr>vec_x = 1 / 2, vec_y = 1, vec_z = - (14 / 5)\<rparr>
   \<and> ballPositionDifference
        (run [ReceivedHit hit3, Tick (1 / 2), Frame_physics serve_body, Tick 1] multi_playing)
       = Some \<lparr>vec_x = 1 / 2, vec_y = 1, vec_z = - (14 / 5)\<rparr>"
  by (simp add: hit3_def multi_playing_def env0_def serve_body_def
        model_defs)

section \<open>Restart handshake\<close>

text \<open>
  C2 (as the code has it). In multiplayer mode a call of \<^verbatim>\<open>restartGame\<close> without both
  restart requests starts no countdown, emits nothing and leaves the two request flags,
  the configuration and the timers as they are; but it hides the crosshair, sets the
  speed of the physics world to 1 and resets the score (\<open>self\<close>, \<open>opponent\<close> and
  \<open>highest\<close> to 0, \<open>lives\<close> to \<open>startLives\<close>), since these three steps come before
  the test of the flags.
\<close>

theorem restartGame_without_both_requests:
  assumes "mode (config s) = MULTIPLAYER"
    and "\<not> (playerRequestedRestart s \<and> opponentRequestedRestart s)"
  shows "restartGame s =
           s\<lparr>crosshair_visible := False,
             physics := (physics s)\<lparr>speed := 1\<rparr>,
             score := \<lparr>self = 0, opponent = 0, lives = startLives (config s), highest = 0\<rparr>\<rparr>
         \<and> time (restartGame s) = time s
         \<and> emitted (restartGame s) = emitted s
         \<and> config (restartGame s) = config s
         \<and> playerRequestedRestart (restartGame s) = playerRequestedRestart s
         \<and> opponentRequestedRestart (restartGame s) = opponentRequestedRestart s"
  using assms by (auto simp add: restartGame_def resetScore_def Let_def)

theorem restartGame_without_both_requests_witness:
  "mode (config multi_over) = MULTIPLAYER
   \<and> \<not> (playerRequestedRestart multi_over \<and> opponentRequestedRestart multi_over)
   \<and> score (restartGame multi_over) = \<lparr>self = 0, opponent = 0, lives = 3, highest = 0\<rparr>
   \<and> time (restartGame multi_over) = time multi_over
   \<and> emitted (restartGame multi_over) = emitted multi_over"
proof -
  have m: "mode (config multi_over) = MULTIPLAYER"
    by (simp add: multi_over_def multi_match_point_def multi_playing_def env0_def serve_body_def
        model_defs)
  have f: "\<not> (playerRequestedRestart multi_over \<and> opponentRequestedRestart multi_over)"
    by (simp add: multi_over_def multi_match_point_def multi_playing_def env0_def serve_body_def
        model_defs)
  have l: "startLives (config multi_over) = 3"
    by (simp add: multi_over_def multi_match_point_def multi_playing_def env0_def serve_body_def
        model_defs)
  from restartGame_without_both_requests [OF m f] m f l show ?thesis
    by simp
qed

text \<open>The claim as the spec states it fails: the opponent has asked for a restart, the
  player has not, and the score of the finished game (11 to 5) is gone.\<close>

theorem restartGame_noop_counterexample:
  "mode (config (multi_over\<lparr>opponentRequestedRestart := True\<rparr>)) = MULTIPLAYER
   \<and> \<not> playerRequestedRestart (multi_over\<lparr>opponentRequestedRestart := True\<rparr>)
   \<and> score (multi_over\<lparr>opponentRequestedRestart := True\<rparr>)
       = \<lparr>self = 11, opponent = 5, lives = 3, highest = 0\<rparr>
   \<and> score (restartGame (multi_over\<lparr>opponentRequestedRestart := True\<rparr>))
       = \<lparr>self = 0, opponent = 0, lives = 3, highest = 0\<rparr>"
  by (simp add: multi_over_def multi_match_point_def multi_playing_def env0_def serve_body_def
        model_defs)

section \<open>Receiving a hit mirrors the frame of the peer\<close>

text \<open>
  C3. When a Hit (or the hit part of a Miss) is received and the ball has a body, the
  handler returns and leaves the body of the ball at the reported point mirrored across
  the center plane of the table (x negated, z reflected about \<open>tablePositionZ\<close>, y
  kept) with the reported velocity inverted in x and z. For the point
  \<open>(0.5, 0, 1.2)\<close>, the velocity \<open>(0, 0, -2)\<close> and \<open>tablePositionZ = 2\<close> this is the
  position \<open>(-0.5, 0, 2.8)\<close> and the velocity \<open>(0, 0, 2)\<close>.
\<close>

theorem onReceivedHit_mirrors:
  assumes "ball s = None \<or> physics_ball (physics s) \<noteq> None"
  shows "\<exists>s' b'. onReceivedHit d wasMiss s = Returned s'
           \<and> physics_ball (physics s') = Some b'
           \<and> position b' = mirrorPosition (point d) (tablePositionZ (config s))
           \<and> velocity b' = mirrorVelocity (data_velocity d)
           \<and> vec_x (position b') = - vec_x (point d)
           \<and> vec_y (position b') = vec_y (point d)
           \<and> vec_z (position b') = 2 * tablePositionZ (config s) - vec_z (point d)
           \<and> vec_x (velocity b') = - vec_x (data_velocity d)
           \<and> vec_y (velocity b') = vec_y (data_velocity d)
           \<and> vec_z (velocity b') = - vec_z (data_velocity d)
           \<and> (point d = \<lparr>vec_x = 0.5, vec_y = 0, vec_z = 1.2\<rparr>
                \<and> data_velocity d = \<lparr>vec_x = 0, vec_y = 0, vec_z = - 2\<rparr>
                \<and> tablePositionZ (config s) = 2
                \<longrightarrow> position b' = \<lparr>vec_x = - 0.5, vec_y = 0, vec_z = 2.8\<rparr>
                  \<and> velocity b' = \<lparr>vec_x = 0, vec_y = 0, vec_z = 2\<rparr>)"
proof (cases "ball s")
  case None
  then show ?thesis
    by (simp add: onReceivedHit_def addBall_def restartPingpongTimeout_def helper_defs Let_def
        split: prod.splits)
next
  case (Some m)
  with assms obtain b where b: "physics_ball (physics s) = Some b" by auto
  with Some show ?thesis
    by (simp add: onReceivedHit_def helper_defs Let_def)
qed

theorem onReceivedHit_mirrors_witness:
  "\<exists>s' b'. onReceivedHit hit3 False multi_playing = Returned s'
      \<and> physics_ball (physics s') = Some b'
      \<and> position b' = \<lparr>vec_x = - 0.5, vec_y = 0, vec_z = 2.8\<rparr>
      \<and> velocity b' = \<lparr>vec_x = 0, vec_y = 0, vec_z = 2\<rparr>"
proof -
  have h: "ball multi_playing = None \<or> physics_ball (physics multi_playing) \<noteq> None"
    by (simp add: hit3_def multi_playing_def env0_def serve_body_def
        model_defs)
  have d: "point hit3 = \<lparr>vec_x = 0.5, vec_y = 0, vec_z = 1.2\<rparr>
      \<and> data_velocity hit3 = \<lparr>vec_x = 0, vec_y = 0, vec_z = - 2\<rparr>
      \<and> tablePositionZ (config multi_playing) = 2"
    by (simp add: hit3_def multi_playing_def env0_def serve_body_def
        model_defs)
  from onReceivedHit_mirrors [OF h, of hit3 False] d show ?thesis
    by blast
qed

section \<open>Scoring events\<close>

text \<open>
  C4 (as the code has it). In multiplayer mode a scoring event, that is a fired reset
  timeout or a received Miss that is not the initial serve, adds exactly 1 to
  \<open>score.self + score.opponent\<close>, and \<^verbatim>\<open>GAME_OVER\<close> is emitted exactly when after the
  addition one side has at least \<open>POINTS_FOR_WIN\<close> points; with a ball in the scene the
  state then becomes \<open>GAME_OVER\<close>, and it does not otherwise. In singleplayer mode a
  fired reset timeout does not add a point: it sets \<open>score.self\<close> to 0, keeps
  \<open>score.opponent\<close>, takes one life, and \<^verbatim>\<open>GAME_OVER\<close> is emitted exactly when the
  lives have dropped below 1.
\<close>

theorem scoring_events:
  "(mode (config s) = MULTIPLAYER \<longrightarrow>
      self (score (state_of (resetTimeoutEnded s)))
        + opponent (score (state_of (resetTimeoutEnded s)))
        = self (score s) + opponent (score s) + 1
      \<and> emitted (state_of (resetTimeoutEnded s)) =
          (if POINTS_FOR_WIN (config s) \<le> self (score (state_of (resetTimeoutEnded s)))
              \<or> POINTS_FOR_WIN (config s) \<le> opponent (score (state_of (resetTimeoutEnded s)))
           then emitted s @ [EVENT_GAME_OVER] else emitted s)
      \<and> (ball s \<noteq> None \<and> state (config s) \<noteq> GAME_OVER \<longrightarrow>
           (state (config (state_of (resetTimeoutEnded s))) = GAME_OVER) =
           (POINTS_FOR_WIN (config s) \<le> self (score (state_of (resetTimeoutEnded s)))
            \<or> POINTS_FOR_WIN (config s) \<le> opponent (score (state_of (resetTimeoutEnded s))))))
   \<and> (\<not> isInit d \<longrightarrow>
      self (score (state_of (onReceivedMiss d s)))
        + opponent (score (state_of (onReceivedMiss d s)))
        = self (score s) + opponent (score s) + 1
      \<and> emitted (state_of (onReceivedMiss d s)) =
          (if POINTS_FOR_WIN (config s) \<le> self (score (state_of (onReceivedMiss d s)))
              \<or> POINTS_FOR_WIN (config s) \<le> opponent (score (state_of (onReceivedMiss d s)))
           then emitted s @ [EVENT_GAME_OVER] else emitted s)
      \<and> (ball s \<noteq> None \<and> state (config s) \<noteq> GAME_OVER \<longrightarrow>
           (state (config (state_of (onReceivedMiss d s))) = GAME_OVER) =
           (POINTS_FOR_WIN (config s) \<le> self (score (state_of (onReceivedMiss d s)))
            \<or> POINTS_FOR_WIN (config s) \<le> opponent (score (state_of (onReceivedMiss d s))))))
   \<and> (mode (config s) = SINGLEPLAYER \<longrightarrow>
      self (score (state_of (resetTimeoutEnded s))) = 0
      \<and> opponent (score (state_of (resetTimeoutEnded s))) = opponent (score s)
      \<and> (physics_ball (physics s) \<noteq> None \<longrightarrow>
           lives (score (state_of (resetTimeoutEnded s))) = lives (score s) - 1
           \<and> emitted (state_of (resetTimeoutEnded s)) =
               (if lives (score (state_of (resetTimeoutEnded s))) < 1
                then emitted s @ [EVENT_GAME_OVER] else emitted s)
           \<and> (ball s \<noteq> None \<and> state (config s) \<noteq> GAME_OVER \<longrightarrow>
                (state (config (state_of (resetTimeoutEnded s))) = GAME_OVER) =
                (lives (score (state_of (resetTimeoutEnded s))) < 1))))"
proof (intro conjI impI)
  assume m: "mode (config s) = MULTIPLAYER"
  show "self (score (state_of (resetTimeoutEnded s)))
        + opponent (score (state_of (resetTimeoutEnded s)))
        = self (score s) + opponent (score s) + 1"
    using m by (simp add: score_resetTimeoutEnded_multi)
  show "emitted (state_of (resetTimeoutEnded s)) =
          (if POINTS_FOR_WIN (config s) \<le> self (score (state_of (resetTimeoutEnded s)))
              \<or> POINTS_FOR_WIN (config s) \<le> opponent (score (state_of (resetTimeoutEnded s)))
           then emitted s @ [EVENT_GAME_OVER] else emitted s)"
    using m by (rule emitted_resetTimeoutEnded_multi)
  assume "ball s \<noteq> None \<and> state (config s) \<noteq> GAME_OVER"
  then obtain b where "ball s = Some b" and "state (config s) \<noteq> GAME_OVER"
    by auto
  with m show "(state (config (state_of (resetTimeoutEnded s))) = GAME_OVER) =
           (POINTS_FOR_WIN (config s) \<le> self (score (state_of (resetTimeoutEnded s)))
            \<or> POINTS_FOR_WIN (config s) \<le> opponent (score (state_of (resetTimeoutEnded s))))"
    by (rule state_resetTimeoutEnded_multi)
next
  assume i: "\<not> isInit d"
  show "self (score (state_of (onReceivedMiss d s)))
        + opponent (score (state_of (onReceivedMiss d s)))
        = self (score s) + opponent (score s) + 1"
    using i by (simp add: score_onReceivedMiss)
  show "emitted (state_of (onReceivedMiss d s)) =
          (if POINTS_FOR_WIN (config s) \<le> self (score (state_of (onReceivedMiss d s)))
              \<or> POINTS_FOR_WIN (config s) \<le> opponent (score (state_of (onReceivedMiss d s)))
           then emitted s @ [EVENT_GAME_OVER] else emitted s)"
    using i by (rule emitted_onReceivedMiss)
  assume "ball s \<noteq> None \<and> state (config s) \<noteq> GAME_OVER"
  then obtain b where "ball s = Some b" and "state (config s) \<noteq> GAME_OVER"
    by auto
  with i show "(state (config (state_of (onReceivedMiss d s))) = GAME_OVER) =
           (POINTS_FOR_WIN (config s) \<le> self (score (state_of (onReceivedMiss d s)))
            \<or> POINTS_FOR_WIN (config s) \<le> opponent (score (state_of (onReceivedMiss d s))))"
    by (rule state_onReceivedMiss)
next
  assume m: "mode (config s) = SINGLEPLAYER"
  show "self (score (state_of (resetTimeoutEnded s))) = 0"
    using m by (simp add: score_resetTimeoutEnded_single)
  show "opponent (score (state_of (resetTimeoutEnded s))) = opponent (score s)"
    using m by (simp add: score_resetTimeoutEnded_single)
  assume "physics_ball (physics s) \<noteq> None"
  then obtain b where b: "physics_ball (physics s) = Some b"
    by auto
  show l: "lives (score (state_of (resetTimeoutEnded s))) = lives (score s) - 1"
    using m b by (simp add: score_resetTimeoutEnded_single)
  show "emitted (state_of (resetTimeoutEnded s)) =
               (if lives (score (state_of (resetTimeoutEnded s))) < 1
                then emitted s @ [EVENT_GAME_OVER] else emitted s)"
    using m b by (simp only: l emitted_resetTimeoutEnded_single)
  assume "ball s \<noteq> None \<and> state (config s) \<noteq> GAME_OVER"
  then obtain a where a: "ball s = Some a" and g: "state (config s) \<noteq> GAME_OVER"
    by auto
  from state_resetTimeoutEnded_single [OF m b a g]
  show "(state (config (state_of (resetTimeoutEnded s))) = GAME_OVER) =
                (lives (score (state_of (resetTimeoutEnded s))) < 1)"
    by (simp only: l)
qed

text \<open>At 10 to 5 the opponent misses: the player has 11 points and the game is over,
  emitted once. In the singleplayer game the lost ball leaves two lives and emits
  nothing.\<close>

theorem scoring_events_witness:
  "self (score (state_of (resetTimeoutEnded multi_match_point)))
     + opponent (score (state_of (resetTimeoutEnded multi_match_point))) = 16
   \<and> emitted (state_of (resetTimeoutEnded multi_match_point)) = [EVENT_GAME_OVER]
   \<and> state (config (state_of (resetTimeoutEnded multi_match_point))) = GAME_OVER
   \<and> self (score (state_of (onReceivedMiss miss_of_peer multi_match_point))) = 11
   \<and> emitted (state_of (onReceivedMiss miss_of_peer multi_match_point)) = [EVENT_GAME_OVER]
   \<and> state (config (state_of (onReceivedMiss miss_of_peer multi_match_point))) = GAME_OVER
   \<and> self (score (state_of (resetTimeoutEnded single_rally))) = 0
   \<and> lives (score (state_of (resetTimeoutEnded single_rally))) = 2
   \<and> emitted (state_of (resetTimeoutEnded single_rally)) = []
   \<and> state (config (state_of (resetTimeoutEnded single_rally))) \<noteq> GAME_OVER"
proof -
  have m: "mode (config multi_match_point) = MULTIPLAYER
      \<and> \<not> isInit miss_of_peer
      \<and> ball multi_match_point \<noteq> None
      \<and> state (config multi_match_point) = PLAYING
      \<and> score multi_match_point = \<lparr>self = 10, opponent = 5, lives = 3, highest = 0\<rparr>
      \<and> emitted multi_match_point = []
      \<and> POINTS_FOR_WIN (config multi_match_point) = 11
      \<and> ballHasHitEnemyTable multi_match_point
      \<and> \<not> data_ballHasHitEnemyTable miss_of_peer"
    by (simp add: multi_match_point_def miss_of_peer_def multi_playing_def single_rally_def single_started_def fresh_scene_def env0_def serve_body_def
        model_defs)
  have s: "mode (config single_rally) = SINGLEPLAYER
      \<and> physics_ball (physics single_rally) \<noteq> None
      \<and> ball single_rally \<noteq> None
      \<and> state (config single_rally) = PLAYING
      \<and> score single_rally = \<lparr>self = 5, opponent = 0, lives = 3, highest = 2\<rparr>
      \<and> emitted single_rally = []"
    by (simp add: multi_match_point_def miss_of_peer_def multi_playing_def single_rally_def single_started_def fresh_scene_def env0_def serve_body_def
        model_defs)
  have t: "self (score (state_of (resetTimeoutEnded multi_match_point))) = 11
      \<and> opponent (score (state_of (resetTimeoutEnded multi_match_point))) = 5"
    using m by (simp add: score_resetTimeoutEnded_multi)
  have u: "self (score (state_of (onReceivedMiss miss_of_peer multi_match_point))) = 11
      \<and> opponent (score (state_of (onReceivedMiss miss_of_peer multi_match_point))) = 5"
    using m by (simp add: score_onReceivedMiss)
  from scoring_events [of multi_match_point miss_of_peer] scoring_events [of single_rally miss_of_peer]
    m s t u
  show ?thesis
    by simp
qed

text \<open>The claim as the spec states it fails in singleplayer mode: the reset timeout ends
  a rally of five and the sum of the two scores drops from 5 to 0.\<close>

theorem scoring_events_counterexample:
  "mode (config single_rally) = SINGLEPLAYER
   \<and> self (score single_rally) + opponent (score single_rally) = 5
   \<and> self (score (step (TimeoutFired 1) single_rally))
       + opponent (score (step (TimeoutFired 1) single_rally)) = 0"
  by (simp add: single_rally_def single_started_def fresh_scene_def env0_def serve_body_def
        model_defs)

section \<open>Send-side slowdown\<close>

text \<open>
  C5. A local hit is a call of \<^verbatim>\<open>onBallPaddleCollision\<close>, with the ball in the scene
  and in the physics world. While the hit tween is active the call returns at once and
  changes nothing. Otherwise, in singleplayer mode \<open>physicsTimeStep\<close> keeps its value,
  and in multiplayer mode the call returns, the body of the ball is the one that the
  physics world computes for the bounce, and \<open>physicsTimeStep\<close> is the one that
  \<^verbatim>\<open>slowdownBall\<close> computes on the scene after the bounce. With the velocity of the
  ball after the bounce, \<open>dist = distance(ball, opponentPaddle)\<close> and
  \<open>eta = dist / |velocity|\<close>:
  when the z-velocity is positive (towards the local player) \<open>physicsTimeStep\<close> is
  left unchanged; a negative z-velocity means a speed other than 0; when the
  z-velocity is not positive, the ball moves and is not at the paddle of the opponent,
  \<open>physicsTimeStep\<close> becomes \<open>1000 * (eta + latency / 1000) / eta\<close>; when the ball
  moves and is at the paddle of the opponent (\<open>eta = 0\<close>) it becomes \<open>Infinity\<close> for
  a positive latency, \<open>NaN\<close> for latency 0 and \<open>-Infinity\<close> for a negative one; when
  the ball is at rest after the bounce it becomes \<open>NaN\<close>.
\<close>

theorem local_hit_time_step:
  assumes "physics_ball (physics s) = Some b0" and "ball s = Some m"
  shows
    "let b = bounce (physics s) b0 (paddle s);
         speed_of_ball = length_v (velocity b);
         dist = length_v (subVectors (mesh_position m) (mesh_position (paddleOpponent s)));
         delay = latency (communication s) / 1000;
         after = onBallPaddleCollision pt s
     in (hitTween_isActive s \<longrightarrow> after = Returned s)
      \<and> (\<not> hitTween_isActive s \<and> mode (config s) = SINGLEPLAYER
           \<longrightarrow> physicsTimeStep (state_of after) = physicsTimeStep s)
      \<and> (\<not> hitTween_isActive s \<and> mode (config s) = MULTIPLAYER
           \<longrightarrow> returned after
             \<and> physics_ball (physics (state_of after)) = Some b
             \<and> physicsTimeStep (state_of after)
                 = physicsTimeStep (state_of (slowdownBall
                     (s\<lparr>physics := (physics s)\<lparr>physics_ball := Some b\<rparr>\<rparr>)))
             \<and> (0 < vec_z (velocity b)
                  \<longrightarrow> physicsTimeStep (state_of after) = physicsTimeStep s)
             \<and> (vec_z (velocity b) < 0 \<longrightarrow> speed_of_ball \<noteq> 0)
             \<and> (vec_z (velocity b) \<le> 0 \<and> speed_of_ball \<noteq> 0 \<and> dist \<noteq> 0
                  \<longrightarrow> physicsTimeStep (state_of after)
                        = Num (1000 * (dist / speed_of_ball + delay) / (dist / speed_of_ball)))
             \<and> (vec_z (velocity b) \<le> 0 \<and> speed_of_ball \<noteq> 0 \<and> dist = 0
                  \<longrightarrow> physicsTimeStep (state_of after)
                        = (if 0 < delay then PosInfinity
                           else if delay = 0 then NaN else NegInfinity))
             \<and> (vec_z (velocity b) \<le> 0 \<and> speed_of_ball = 0
                  \<longrightarrow> physicsTimeStep (state_of after) = NaN))"
proof -
  define b where "b = bounce (physics s) b0 (paddle s)"
  define s1 where "s1 = s\<lparr>physics := (physics s)\<lparr>physics_ball := Some b\<rparr>\<rparr>"
  define speed_of_ball where "speed_of_ball = length_v (velocity b)"
  define dist where
    "dist = length_v (subVectors (mesh_position m) (mesh_position (paddleOpponent s)))"
  define delay where "delay = latency (communication s) / 1000"
  have active: "onBallPaddleCollision pt s = Returned s" if "hitTween_isActive s"
    using that by (simp add: onBallPaddleCollision_def)
  have single: "physicsTimeStep (state_of (onBallPaddleCollision pt s)) = physicsTimeStep s"
    if "mode (config s) = SINGLEPLAYER"
    using that by (rule onBallPaddleCollision_singleplayer)
  have slow: "physicsTimeStep (state_of (slowdownBall s1))
      = (if 0 < vec_z (velocity b) then physicsTimeStep s
         else js_mul (js_mul (Num 1000)
                (js_div (js_add (js_div (Num dist) (Num speed_of_ball)) (Num delay))
                   (js_div (Num dist) (Num speed_of_ball)))) (Num 1))"
    using assms
    by (simp add: slowdownBall_def s1_def Let_def state_of_def dist_def speed_of_ball_def
        delay_def)
  have pos: "speed_of_ball \<noteq> 0" if "vec_z (velocity b) < 0"
  proof -
    from that have "0 < length_v (velocity b)"
      by (intro length_v_pos_z) simp
    then show ?thesis by (simp add: speed_of_ball_def)
  qed
  have multi: "returned (onBallPaddleCollision pt s)
      \<and> physics_ball (physics (state_of (onBallPaddleCollision pt s))) = Some b
      \<and> physicsTimeStep (state_of (onBallPaddleCollision pt s))
          = physicsTimeStep (state_of (slowdownBall s1))"
    if "\<not> hitTween_isActive s" and "mode (config s) = MULTIPLAYER"
    using onBallPaddleCollision_multiplayer [OF that(2) that(1) assms, of pt]
    by (simp add: b_def s1_def)
  have formula: "js_mul (js_mul (Num 1000)
                (js_div (js_add (js_div (Num dist) (Num speed_of_ball)) (Num delay))
                   (js_div (Num dist) (Num speed_of_ball)))) (Num 1)
        = Num (1000 * (dist / speed_of_ball + delay) / (dist / speed_of_ball))"
    if "speed_of_ball \<noteq> 0" and "dist \<noteq> 0"
    using that by simp
  have at_paddle: "js_mul (js_mul (Num 1000)
                (js_div (js_add (js_div (Num dist) (Num speed_of_ball)) (Num delay))
                   (js_div (Num dist) (Num speed_of_ball)))) (Num 1)
        = (if 0 < delay then PosInfinity else if delay = 0 then NaN else NegInfinity)"
    if "speed_of_ball \<noteq> 0" and "dist = 0"
    using that by (simp add: js_sign_def)
  have at_rest: "js_mul (js_mul (Num 1000)
                (js_div (js_add (js_div (Num dist) (Num speed_of_ball)) (Num delay))
                   (js_div (Num dist) (Num speed_of_ball)))) (Num 1) = NaN"
    if "speed_of_ball = 0"
    using that by (cases "dist = 0"; cases "0 < dist"; simp add: js_sign_def)
  have step: "physicsTimeStep (state_of (onBallPaddleCollision pt s))
      = (if 0 < vec_z (velocity b) then physicsTimeStep s
         else js_mul (js_mul (Num 1000)
                (js_div (js_add (js_div (Num dist) (Num speed_of_ball)) (Num delay))
                   (js_div (Num dist) (Num speed_of_ball)))) (Num 1))"
    if "\<not> hitTween_isActive s" and "mode (config s) = MULTIPLAYER"
    using multi [OF that] slow by simp
  show ?thesis
    unfolding Let_def b_def [symmetric] s1_def [symmetric] speed_of_ball_def [symmetric]
      dist_def [symmetric] delay_def [symmetric]
  proof (intro conjI impI; (elim conjE)?)
    assume "hitTween_isActive s"
    then show "onBallPaddleCollision pt s = Returned s" by (rule active)
  next
    assume "mode (config s) = SINGLEPLAYER"
    then show "physicsTimeStep (state_of (onBallPaddleCollision pt s)) = physicsTimeStep s"
      by (rule single)
  next
    assume "\<not> hitTween_isActive s" and "mode (config s) = MULTIPLAYER"
    then show "returned (onBallPaddleCollision pt s)"
      and "physics_ball (physics (state_of (onBallPaddleCollision pt s))) = Some b"
      and "physicsTimeStep (state_of (onBallPaddleCollision pt s))
             = physicsTimeStep (state_of (slowdownBall s1))"
      using multi by simp_all
  next
    assume "\<not> hitTween_isActive s" and "mode (config s) = MULTIPLAYER"
      and "0 < vec_z (velocity b)"
    then show "physicsTimeStep (state_of (onBallPaddleCollision pt s)) = physicsTimeStep s"
      using step by simp
  next
    assume "vec_z (velocity b) < 0"
    then show "speed_of_ball \<noteq> 0" by (rule pos)
  next
    assume "\<not> hitTween_isActive s" and "mode (config s) = MULTIPLAYER"
      and "vec_z (velocity b) \<le> 0" and "speed_of_ball \<noteq> 0" and "dist \<noteq> 0"
    then show "physicsTimeStep (state_of (onBallPaddleCollision pt s))
        = Num (1000 * (dist / speed_of_ball + delay) / (dist / speed_of_ball))"
      using step formula by simp
  next
    assume "\<not> hitTween_isActive s" and "mode (config s) = MULTIPLAYER"
      and "vec_z (velocity b) \<le> 0" and "speed_of_ball \<noteq> 0" and "dist = 0"
    then show "physicsTimeStep (state_of (onBallPaddleCollision pt s))
        = (if 0 < delay then PosInfinity else if delay = 0 then NaN else NegInfinity)"
      using step at_paddle by simp
  next
    assume "\<not> hitTween_isActive s" and "mode (config s) = MULTIPLAYER"
      and "vec_z (velocity b) \<le> 0" and "speed_of_ball = 0"
    then show "physicsTimeStep (state_of (onBallPaddleCollision pt s)) = NaN"
      using step at_rest by simp
  qed
qed


text \<open>The served ball is struck at distance 4 from the paddle of the opponent and leaves
  at speed 2, the latency is 100 ms: the time step becomes \<open>1000 * 2.1 / 2 = 1050\<close>.
  A ball that the bounce sends towards the player leaves the time step at 1000. A
  second collision while the hit tween runs changes nothing. In singleplayer mode the
  time step stays at 1000. With the paddle of the opponent at the ball the time step is
  \<open>Infinity\<close>, with a ball at rest it is \<open>NaN\<close>.\<close>

theorem local_hit_time_step_witness:
  "physicsTimeStep
     (state_of (onBallPaddleCollision \<lparr>vec_x = 0, vec_y = 1, vec_z = 0\<rparr> multi_playing))
     = Num 1050
   \<and> physicsTimeStep
       (state_of (onBallPaddleCollision \<lparr>vec_x = 0, vec_y = 1, vec_z = 0\<rparr> multi_returning))
       = Num 1000
   \<and> onBallPaddleCollision \<lparr>vec_x = 0, vec_y = 1, vec_z = 0\<rparr> multi_struck
       = Returned multi_struck
   \<and> physicsTimeStep multi_struck = Num 1050
   \<and> physicsTimeStep
       (state_of (onBallPaddleCollision \<lparr>vec_x = 0, vec_y = 1, vec_z = 0\<rparr> single_playing))
       = Num 1000
   \<and> physicsTimeStep
       (state_of (onBallPaddleCollision \<lparr>vec_x = 0, vec_y = 1, vec_z = 0\<rparr> multi_at_paddle))
       = PosInfinity
   \<and> physicsTimeStep
       (state_of (onBallPaddleCollision \<lparr>vec_x = 0, vec_y = 1, vec_z = 0\<rparr> multi_at_rest))
       = NaN"
proof -
  let ?pt = "\<lparr>vec_x = 0, vec_y = 1, vec_z = 0\<rparr>"
  let ?away = "serve_body\<lparr>velocity := \<lparr>vec_x = 0, vec_y = 0, vec_z = - 2\<rparr>\<rparr>"
  have a: "physics_ball (physics multi_playing) = Some serve_body"
    "ball multi_playing = Some (Ball_new env0)"
    and a': "\<not> hitTween_isActive multi_playing"
    "mode (config multi_playing) = MULTIPLAYER"
    "velocity (bounce (physics multi_playing) serve_body (paddle multi_playing))
       = \<lparr>vec_x = 0, vec_y = 0, vec_z = - 2\<rparr>"
    "length_v (subVectors (mesh_position (Ball_new env0))
       (mesh_position (paddleOpponent multi_playing))) = 4"
    "latency (communication multi_playing) = 100"
    by (simp_all add: multi_playing_def env0_def serve_body_def model_defs
        mirrorVelocity_def subVectors_def length_v_axis)
  have b: "physics_ball (physics multi_returning) = Some ?away"
    "ball multi_returning = Some (Ball_new env0)"
    and b': "\<not> hitTween_isActive multi_returning"
    "mode (config multi_returning) = MULTIPLAYER"
    "velocity (bounce (physics multi_returning) ?away (paddle multi_returning))
       = \<lparr>vec_x = 0, vec_y = 0, vec_z = 2\<rparr>"
    "physicsTimeStep multi_returning = Num 1000"
    by (simp_all add: multi_returning_def multi_playing_def env0_def serve_body_def model_defs
        mirrorVelocity_def)
  have c: "physics_ball (physics multi_struck) = Some ?away"
    "ball multi_struck = Some (Ball_new env0)"
    and c': "hitTween_isActive multi_struck"
    by (simp_all add: multi_struck_def multi_playing_def env0_def serve_body_def model_defs
        mirrorVelocity_def physics_onBallPaddleCollision_def andThen_def clearTimeout_def
        setTimeout_def)
  have d: "physics_ball (physics single_playing) = Some serve_body"
    "ball single_playing = Some (Ball_new env0)"
    and d': "\<not> hitTween_isActive single_playing"
    "mode (config single_playing) = SINGLEPLAYER"
    "physicsTimeStep single_playing = Num 1000"
    by (simp_all add: single_playing_def env0_def serve_body_def model_defs)
  have e: "physics_ball (physics multi_at_paddle) = Some serve_body"
    "ball multi_at_paddle = Some (Ball_new env0)"
    and e': "\<not> hitTween_isActive multi_at_paddle"
    "mode (config multi_at_paddle) = MULTIPLAYER"
    "velocity (bounce (physics multi_at_paddle) serve_body (paddle multi_at_paddle))
       = \<lparr>vec_x = 0, vec_y = 0, vec_z = - 2\<rparr>"
    "length_v (subVectors (mesh_position (Ball_new env0))
       (mesh_position (paddleOpponent multi_at_paddle))) = 0"
    "latency (communication multi_at_paddle) = 100"
    by (simp_all add: multi_at_paddle_def multi_playing_def env0_def serve_body_def model_defs
        mirrorVelocity_def subVectors_def length_v_axis)
  have f: "physics_ball (physics multi_at_rest) = Some serve_body"
    "ball multi_at_rest = Some (Ball_new env0)"
    and f': "\<not> hitTween_isActive multi_at_rest"
    "mode (config multi_at_rest) = MULTIPLAYER"
    "velocity (bounce (physics multi_at_rest) serve_body (paddle multi_at_rest))
       = \<lparr>vec_x = 0, vec_y = 0, vec_z = 0\<rparr>"
    by (simp_all add: multi_at_rest_def multi_playing_def env0_def serve_body_def model_defs)
  from local_hit_time_step [OF a, of ?pt] a'
  have 1: "physicsTimeStep (state_of (onBallPaddleCollision ?pt multi_playing)) = Num 1050"
    by (auto simp add: Let_def length_v_axis)
  from local_hit_time_step [OF b, of ?pt] b'
  have 2: "physicsTimeStep (state_of (onBallPaddleCollision ?pt multi_returning)) = Num 1000"
    by (auto simp add: Let_def)
  from local_hit_time_step [OF c, of ?pt] c'
  have 3: "onBallPaddleCollision ?pt multi_struck = Returned multi_struck"
    by (auto simp add: Let_def)
  from 1 have 4: "physicsTimeStep multi_struck = Num 1050"
    by (simp add: multi_struck_def)
  from local_hit_time_step [OF d, of ?pt] d'
  have 5: "physicsTimeStep (state_of (onBallPaddleCollision ?pt single_playing)) = Num 1000"
    by (auto simp add: Let_def)
  from local_hit_time_step [OF e, of ?pt] e'
  have 6: "physicsTimeStep (state_of (onBallPaddleCollision ?pt multi_at_paddle)) = PosInfinity"
    by (auto simp add: Let_def length_v_axis)
  from local_hit_time_step [OF f, of ?pt] f'
  have 7: "physicsTimeStep (state_of (onBallPaddleCollision ?pt multi_at_rest)) = NaN"
    by (auto simp add: Let_def length_v_axis)
  from 1 2 3 4 5 6 7 show ?thesis by simp
qed

section \<open>Paddle target within the table\<close>

text \<open>
  C6 (as the code has it). Whenever the input source yields a candidate position, that
  is with the mouse, locked or not, and in VR when the ray meets the table plane,
  the x component of the result of \<^verbatim>\<open>computePaddlePosition\<close> lies between
  \<open>-tableWidth\<close> and \<open>tableWidth\<close> and its z component between 0 and
  \<open>tablePositionZ + 0.5\<close> (in the order of these bounds). In VR without an
  intersection the result is the current position of the paddle, unclamped.
\<close>

theorem computePaddlePosition_clamped:
  "(\<not> (display s \<and> controlMode s = VR \<and> intersects = []) \<longrightarrow>
      min (- tableWidth (config s)) (tableWidth (config s))
        \<le> vec_x (computePaddlePosition intersects s)
      \<and> vec_x (computePaddlePosition intersects s)
        \<le> max (- tableWidth (config s)) (tableWidth (config s))
      \<and> min 0 (tablePositionZ (config s) + 0.5) \<le> vec_z (computePaddlePosition intersects s)
      \<and> vec_z (computePaddlePosition intersects s) \<le> max 0 (tablePositionZ (config s) + 0.5)
      \<and> (0 \<le> tableWidth (config s) \<longrightarrow>
           - tableWidth (config s) \<le> vec_x (computePaddlePosition intersects s)
           \<and> vec_x (computePaddlePosition intersects s) \<le> tableWidth (config s))
      \<and> (0 \<le> tablePositionZ (config s) + 0.5 \<longrightarrow>
           0 \<le> vec_z (computePaddlePosition intersects s)
           \<and> vec_z (computePaddlePosition intersects s) \<le> tablePositionZ (config s) + 0.5))
   \<and> (display s \<and> controlMode s = VR \<longrightarrow>
        computePaddlePosition [] s = mesh_position (paddle s))"
proof -
  have vr: "computePaddlePosition [] s = mesh_position (paddle s)"
    if "display s \<and> controlMode s = VR"
    using that by (simp add: computePaddlePosition_def Let_def)
  have bounds: "min (- tableWidth (config s)) (tableWidth (config s))
        \<le> vec_x (computePaddlePosition intersects s)
      \<and> vec_x (computePaddlePosition intersects s)
        \<le> max (- tableWidth (config s)) (tableWidth (config s))
      \<and> min 0 (tablePositionZ (config s) + 0.5) \<le> vec_z (computePaddlePosition intersects s)
      \<and> vec_z (computePaddlePosition intersects s) \<le> max 0 (tablePositionZ (config s) + 0.5)"
    if "\<not> (display s \<and> controlMode s = VR \<and> intersects = [])"
  proof (cases "display s \<and> controlMode s = VR")
    case True
    with that obtain p ps where "intersects = p # ps"
      by (cases intersects) auto
    with True show ?thesis
      by (simp add: computePaddlePosition_def Let_def cap_between)
  next
    case False
    then show ?thesis
      by (auto simp add: computePaddlePosition_def Let_def cap_between)
  qed
  from vr bounds show ?thesis
    by (auto simp add: min_def max_def split: if_splits)
qed

theorem computePaddlePosition_clamped_witness:
  "computePaddlePosition [] single_dragging = \<lparr>vec_x = 1.5, vec_y = 1.04, vec_z = 1.5\<rparr>
   \<and> - tableWidth (config single_dragging) \<le> vec_x (computePaddlePosition [] single_dragging)
   \<and> vec_x (computePaddlePosition [] single_dragging) \<le> tableWidth (config single_dragging)
   \<and> 0 \<le> vec_z (computePaddlePosition [] single_dragging)
   \<and> vec_z (computePaddlePosition [] single_dragging)
       \<le> tablePositionZ (config single_dragging) + 0.5"
proof -
  have a: "\<not> (display single_dragging \<and> controlMode single_dragging = VR \<and> [] = ([]::Vector3 list))
      \<and> 0 \<le> tableWidth (config single_dragging)
      \<and> 0 \<le> tablePositionZ (config single_dragging) + 0.5"
    by (simp add: single_dragging_def single_started_def fresh_scene_def env0_def serve_body_def
        model_defs)
  have b: "computePaddlePosition [] single_dragging = \<lparr>vec_x = 1.5, vec_y = 1.04, vec_z = 1.5\<rparr>"
    by (simp add: single_dragging_def single_started_def fresh_scene_def env0_def serve_body_def
        model_defs)
  from computePaddlePosition_clamped [of single_dragging "[]"] a b show ?thesis
    by simp
qed

text \<open>The claim as the spec states it fails for the headset whose ray misses the table
  plane: the result is the position of the paddle, beyond the edge of the table.\<close>

theorem computePaddlePosition_clamped_counterexample:
  "display vr_scene \<and> controlMode vr_scene = VR
   \<and> tableWidth (config vr_scene) = 1.5
   \<and> computePaddlePosition [] vr_scene = \<lparr>vec_x = 1.6, vec_y = 1, vec_z = - 0.05\<rparr>
   \<and> \<not> vec_x (computePaddlePosition [] vr_scene) \<le> tableWidth (config vr_scene)
   \<and> \<not> 0 \<le> vec_z (computePaddlePosition [] vr_scene)"
  by (simp add: vr_scene_def single_playing_def env0_def serve_body_def
        model_defs)

section \<open>Three lost balls end the singleplayer game\<close>

text \<open>
  C7. In singleplayer mode, with a ball in play and the reset timer pending, each firing
  of the reset timeout takes exactly one life, and it emits \<^verbatim>\<open>GAME_OVER\<close> and moves
  the state to \<open>GAME_OVER\<close> exactly when the lives have fallen below 1. With
  \<open>startLives = 3\<close> and all lives left, the first two firings leave the game running
  with 2 and 1 lives, and the third ends it with \<open>score.lives = 0\<close>, \<^verbatim>\<open>GAME_OVER\<close>
  emitted once and no reset timer pending.
\<close>

theorem three_timeouts_end_the_game:
  assumes "mode (config s) = SINGLEPLAYER" and "state (config s) \<noteq> GAME_OVER"
    and "ball s \<noteq> None" and "physics_ball (physics s) \<noteq> None"
    and "timeouts (time s) = [(h, d)]"
  shows "lives (score (step (TimeoutFired h) s)) = lives (score s) - 1
     \<and> emitted (step (TimeoutFired h) s) =
         (if lives (score (step (TimeoutFired h) s)) < 1
          then emitted s @ [EVENT_GAME_OVER] else emitted s)
     \<and> (state (config (step (TimeoutFired h) s)) = GAME_OVER)
         = (lives (score (step (TimeoutFired h) s)) < 1)
     \<and> (startLives (config s) = 3 \<and> lives (score s) = startLives (config s) \<longrightarrow>
          lives (score (run [TimeoutFired h] s)) = 2
          \<and> state (config (run [TimeoutFired h] s)) \<noteq> GAME_OVER
          \<and> emitted (run [TimeoutFired h] s) = emitted s
          \<and> lives (score (run [TimeoutFired h, TimeoutFired (nextHandle (time s))] s)) = 1
          \<and> state (config (run [TimeoutFired h, TimeoutFired (nextHandle (time s))] s))
              \<noteq> GAME_OVER
          \<and> emitted (run [TimeoutFired h, TimeoutFired (nextHandle (time s))] s) = emitted s
          \<and> lives (score (run [TimeoutFired h, TimeoutFired (nextHandle (time s)),
                                 TimeoutFired (Suc (nextHandle (time s)))] s)) = 0
          \<and> state (config (run [TimeoutFired h, TimeoutFired (nextHandle (time s)),
                                  TimeoutFired (Suc (nextHandle (time s)))] s)) = GAME_OVER
          \<and> emitted (run [TimeoutFired h, TimeoutFired (nextHandle (time s)),
                            TimeoutFired (Suc (nextHandle (time s)))] s)
              = emitted s @ [EVENT_GAME_OVER]
          \<and> timeouts (time (run [TimeoutFired h, TimeoutFired (nextHandle (time s)),
                                  TimeoutFired (Suc (nextHandle (time s)))] s)) = [])"
proof -
  from assms obtain m b where mb: "ball s = Some m" "physics_ball (physics s) = Some b"
    by auto
  note one = fire_single [OF assms(1) assms(2) mb assms(5)]
  have first: "lives (score (step (TimeoutFired h) s)) = lives (score s) - 1
     \<and> emitted (step (TimeoutFired h) s) =
         (if lives (score (step (TimeoutFired h) s)) < 1
          then emitted s @ [EVENT_GAME_OVER] else emitted s)
     \<and> (state (config (step (TimeoutFired h) s)) = GAME_OVER)
         = (lives (score (step (TimeoutFired h) s)) < 1)"
    using one(2) one(7) one(8) assms(2) by (cases "lives (score s) - 1 < 1") simp_all
  have three: ?thesis if l: "startLives (config s) = 3 \<and> lives (score s) = startLives (config s)"
  proof -
    define s1 where "s1 = step (TimeoutFired h) s"
    define s2 where "s2 = step (TimeoutFired (nextHandle (time s))) s1"
    define s3 where "s3 = step (TimeoutFired (Suc (nextHandle (time s)))) s2"
    from l have l3: "lives (score s) = 3" by simp
    have a1: "lives (score s1) = 2" "mode (config s1) = SINGLEPLAYER"
      "state (config s1) = state (config s)" "emitted s1 = emitted s"
      "timeouts (time s1) = [(nextHandle (time s), resetTimeoutDuration s)]"
      "nextHandle (time s1) = Suc (nextHandle (time s))"
      "resetTimeoutDuration s1 = resetTimeoutDuration s"
      using one(2) one(3) one(6) one(8) l3 by (simp_all add: s1_def)
    from one(4) one(5) obtain m1 b1
      where mb1: "ball s1 = Some m1" "physics_ball (physics s1) = Some b1"
      by (auto simp add: s1_def)
    from a1(3) assms(2) have g1: "state (config s1) \<noteq> GAME_OVER" by simp
    note two = fire_single [OF a1(2) g1 mb1 a1(5)]
    have a2: "lives (score s2) = 1" "mode (config s2) = SINGLEPLAYER"
      "state (config s2) = state (config s)" "emitted s2 = emitted s"
      "timeouts (time s2) = [(Suc (nextHandle (time s)), resetTimeoutDuration s)]"
      using two(2) two(3) two(8) a1 by (simp_all add: s2_def)
    from two(4) two(5) obtain m2 b2
      where mb2: "ball s2 = Some m2" "physics_ball (physics s2) = Some b2"
      by (auto simp add: s2_def)
    from a2(3) assms(2) have g2: "state (config s2) \<noteq> GAME_OVER" by simp
    note last = fire_single [OF a2(2) g2 mb2 a2(5)]
    have a3: "lives (score s3) = 0" "state (config s3) = GAME_OVER"
      "emitted s3 = emitted s @ [EVENT_GAME_OVER]" "timeouts (time s3) = []"
      using last(2) last(7) a2 by (simp_all add: s3_def)
    have r: "run [TimeoutFired h] s = s1"
      "run [TimeoutFired h, TimeoutFired (nextHandle (time s))] s = s2"
      "run [TimeoutFired h, TimeoutFired (nextHandle (time s)),
            TimeoutFired (Suc (nextHandle (time s)))] s = s3"
      by (simp_all add: run_def s1_def s2_def s3_def)
    from first a1 a2 a3 g1 g2 show ?thesis
      by (simp only: r) simp
  qed
  from first three show ?thesis by blast
qed

theorem three_timeouts_end_the_game_witness:
  "lives (score (run [TimeoutFired 1, TimeoutFired 2, TimeoutFired 3] single_started)) = 0
   \<and> state (config (run [TimeoutFired 1, TimeoutFired 2, TimeoutFired 3] single_started))
       = GAME_OVER
   \<and> emitted (run [TimeoutFired 1, TimeoutFired 2, TimeoutFired 3] single_started)
       = [EVENT_GAME_OVER]
   \<and> lives (score (run [TimeoutFired 1, TimeoutFired 2] single_started)) = 1
   \<and> state (config (run [TimeoutFired 1, TimeoutFired 2] single_started)) \<noteq> GAME_OVER"
proof -
  have a: "mode (config single_started) = SINGLEPLAYER"
    and b: "state (config single_started) \<noteq> GAME_OVER"
    and c: "ball single_started \<noteq> None"
    and d: "physics_ball (physics single_started) \<noteq> None"
    and e: "timeouts (time single_started) = [(1, 1500)]"
    by (simp_all add: single_started_def fresh_scene_def env0_def serve_body_def
        model_defs)
  have f: "startLives (config single_started) = 3
      \<and> lives (score single_started) = startLives (config single_started)
      \<and> nextHandle (time single_started) = 2
      \<and> emitted single_started = []"
    by (simp add: single_started_def fresh_scene_def env0_def serve_body_def
        model_defs)
  from three_timeouts_end_the_game [OF a b c d e] f show ?thesis
    by (simp add: numeral_2_eq_2 numeral_3_eq_3)
qed

section \<open>At most one reset timer\<close>

text \<open>
  C8 (as the code has it). In every reachable scene at most one reset timer is pending,
  and it is the one that \<^verbatim>\<open>resetBallTimeout\<close> records: \<^verbatim>\<open>restartPingpongTimeout\<close>
  cancels the recorded timer before it schedules the new one (and schedules none once the
  game is over). A countdown interval cancels itself on its third tick, when its counter
  has run from 2 below 0. But \<^verbatim>\<open>countdown\<close> adds its interval to the pending ones
  without cancelling any, so at most one countdown interval is pending only as long as
  \<^verbatim>\<open>countdown\<close> is not called again within the three ticks.
\<close>

theorem at_most_one_reset_timer:
  assumes "reachable s"
  shows "length (timeouts (time s)) \<le> 1
     \<and> (\<forall>p \<in> set (timeouts (time s)). resetBallTimeout s = Some (fst p))
     \<and> timeouts (time (restartPingpongTimeout s)) =
         (if state (config s) = GAME_OVER then []
          else [(nextHandle (time s), resetTimeoutDuration s)])
     \<and> length (timeouts (time (restartPingpongTimeout s))) \<le> 1
     \<and> intervals (time (countdown s)) = intervals (time s) @ [(nextHandle (time s), 2)]
     \<and> (map_of (intervals (time s)) h = Some n \<and> n \<le> 0 \<longrightarrow>
          h \<notin> fst ` set (intervals (time (step (IntervalFired h) s))))
     \<and> (intervals (time s) = [(h, 2)] \<longrightarrow>
          intervals (time (run [IntervalFired h] s)) = [(h, 1)]
          \<and> intervals (time (run [IntervalFired h, IntervalFired h] s)) = [(h, 0)]
          \<and> intervals (time (run [IntervalFired h, IntervalFired h, IntervalFired h] s)) = [])"
proof -
  from assms have ok: "timers_ok s"
    by (intro quiet_timers_ok reachable_quiet)
  have one: "length (timeouts (time s)) \<le> 1
     \<and> (\<forall>p \<in> set (timeouts (time s)). resetBallTimeout s = Some (fst p))"
    using ok by (cases rule: timers_ok_cases) simp_all
  note rpt = restartPingpongTimeout_timers(1) [OF ok]
  have three: "intervals (time (run [IntervalFired h] s)) = [(h, 1)]
          \<and> intervals (time (run [IntervalFired h, IntervalFired h] s)) = [(h, 0)]
          \<and> intervals (time (run [IntervalFired h, IntervalFired h, IntervalFired h] s)) = []"
    if i: "intervals (time s) = [(h, 2)]"
  proof -
    have a: "intervals (time (step (IntervalFired h) s)) = [(h, 1)]"
      using intervals_tick_one [OF i] by simp
    have b: "intervals (time (step (IntervalFired h) (step (IntervalFired h) s))) = [(h, 0)]"
      using intervals_tick_one [OF a] by simp
    have c: "intervals (time (step (IntervalFired h)
                (step (IntervalFired h) (step (IntervalFired h) s)))) = []"
      using intervals_tick_one [OF b] by simp
    from a b c show ?thesis by (simp add: run_def)
  qed
  from one rpt three intervals_countdown [of s] intervals_cancel [of s h n]
  show ?thesis by simp
qed

text \<open>The singleplayer game has just started: one countdown interval, no reset timer;
  three ticks later the interval is gone.\<close>

theorem at_most_one_reset_timer_witness:
  "length (timeouts (time (run [StartGame] fresh_scene))) \<le> 1
   \<and> intervals (time (run [StartGame] fresh_scene)) = [(0, 2)]
   \<and> intervals (time (run [IntervalFired 0, IntervalFired 0, IntervalFired 0]
                        (run [StartGame] fresh_scene))) = []
   \<and> timeouts (time (restartPingpongTimeout (run [StartGame] fresh_scene))) = [(1, 1500)]"
proof -
  have r: "reachable (run [StartGame] fresh_scene)"
    by (rule reachable_run [OF reachable_fresh_scene])
  have i: "intervals (time (run [StartGame] fresh_scene)) = [(0, 2)]
      \<and> state (config (run [StartGame] fresh_scene)) = COUNTDOWN
      \<and> nextHandle (time (run [StartGame] fresh_scene)) = 1
      \<and> resetTimeoutDuration (run [StartGame] fresh_scene) = 1500"
    by (simp add: fresh_scene_def env0_def serve_body_def
        model_defs)
  from at_most_one_reset_timer [OF r, of 0 0] i show ?thesis
    by simp
qed

text \<open>The claim as the spec states it fails for the countdown interval: after the
  singleplayer game is over, the restart button is pressed twice and two countdown
  intervals are pending.\<close>

theorem one_countdown_interval_counterexample:
  "reachable (run [RestartButtonPressed, RestartButtonPressed] single_over)
   \<and> mode (config single_over) = SINGLEPLAYER
   \<and> state (config single_over) = GAME_OVER
   \<and> intervals (time single_over) = []
   \<and> intervals (time (run [RestartButtonPressed, RestartButtonPressed] single_over))
       = [(4, 2), (5, 2)]"
proof -
  have "reachable (run [RestartButtonPressed, RestartButtonPressed] single_over)"
    by (rule reachable_run [OF reachable_single_over])
  moreover have "mode (config single_over) = SINGLEPLAYER
   \<and> state (config single_over) = GAME_OVER
   \<and> intervals (time single_over) = []
   \<and> intervals (time (run [RestartButtonPressed, RestartButtonPressed] single_over))
       = [(4, 2), (5, 2)]"
    by (simp add: single_over_def single_started_def fresh_scene_def env0_def serve_body_def
        model_defs)
  ultimately show ?thesis by simp
qed

section \<open>No reset timer once the game is over\<close>

text \<open>
  C9 (as the code has it). In every reachable scene whose state is \<open>GAME_OVER\<close> no
  reset timer is pending; a call of \<^verbatim>\<open>restartPingpongTimeout\<close> there cancels what is
  recorded and schedules nothing; and whatever event comes next, a reset timer is pending
  afterwards only if the ball has been added again, which sets the state to \<open>PLAYING\<close>.
  With a ball in the scene \<^verbatim>\<open>onGameOver\<close> returns, sets the state to \<open>GAME_OVER\<close> and
  leaves no reset timer pending. \<^verbatim>\<open>addBall\<close> sets the state to \<open>PLAYING\<close> and, when
  it returns, schedules the one reset timer. This holds while the state is \<open>GAME_OVER\<close>:
  once a restart has moved the state to \<open>COUNTDOWN\<close>, a hit of the paddle schedules the
  reset timer before the ball is added again.
\<close>

theorem no_reset_timer_while_game_over:
  assumes "reachable s"
  shows "(state (config s) = GAME_OVER \<longrightarrow>
            timeouts (time s) = []
            \<and> timeouts (time (restartPingpongTimeout s)) = []
            \<and> nextHandle (time (restartPingpongTimeout s)) = nextHandle (time s)
            \<and> (timeouts (time (step e s)) = [] \<or> state (config (step e s)) = PLAYING))
     \<and> (ball s \<noteq> None \<longrightarrow>
            returned (onGameOver s)
            \<and> state (config (state_of (onGameOver s))) = GAME_OVER
            \<and> timeouts (time (state_of (onGameOver s))) = [])
     \<and> state (config (state_of (addBall s))) = PLAYING
     \<and> (returned (addBall s) \<longrightarrow>
            timeouts (time (state_of (addBall s)))
              = [(nextHandle (time s), resetTimeoutDuration s)])"
proof -
  from assms have q: "quiet s" by (rule reachable_quiet)
  then have ok: "timers_ok s" by (rule quiet_timers_ok)
  have over: "timeouts (time s) = []
            \<and> timeouts (time (restartPingpongTimeout s)) = []
            \<and> nextHandle (time (restartPingpongTimeout s)) = nextHandle (time s)
            \<and> (timeouts (time (step e s)) = [] \<or> state (config (step e s)) = PLAYING)"
    if g: "state (config s) = GAME_OVER"
  proof -
    from q g have t: "timeouts (time s) = []" by (simp add: quiet_def)
    from calm_step_game_over [OF g t, of e]
    have "timeouts (time (step e s)) = [] \<or> state (config (step e s)) = PLAYING"
      by (simp add: calm_def)
    moreover have "nextHandle (time (restartPingpongTimeout s)) = nextHandle (time s)"
      using g by (simp add: restartPingpongTimeout_def Let_def clearTimeout_def)
    ultimately show ?thesis
      using t g restartPingpongTimeout_timers(1) [OF ok] by simp
  qed
  have gameover: "returned (onGameOver s)
            \<and> state (config (state_of (onGameOver s))) = GAME_OVER
            \<and> timeouts (time (state_of (onGameOver s))) = []"
    if "ball s \<noteq> None"
    using that onGameOver_timers(1) [OF ok]
    by (auto simp add: returned_onGameOver config_onGameOver)
  have added: "timeouts (time (state_of (addBall s)))
              = [(nextHandle (time s), resetTimeoutDuration s)]"
    if "returned (addBall s)"
    using that ok
    by (auto simp add: addBall_def Let_def outcome_simps restartPingpongTimeout_timers
        physics_addBall_def split: option.splits)
  from over gameover added show ?thesis
    by (simp add: config_addBall)
qed

text \<open>The singleplayer game is over: no reset timer is pending, and a frame in which
  the paddle meets the ball schedules none.\<close>

theorem no_reset_timer_while_game_over_witness:
  "state (config single_over) = GAME_OVER
   \<and> timeouts (time single_over) = []
   \<and> timeouts (time (restartPingpongTimeout single_over)) = []
   \<and> (timeouts (time (step Frame_hit single_over)) = []
       \<or> state (config (step Frame_hit single_over)) = PLAYING)
   \<and> timeouts (time (state_of (addBall single_over))) = [(4, 1500)]"
proof -
  have g: "state (config single_over) = GAME_OVER \<and> ball single_over \<noteq> None
      \<and> returned (addBall single_over)
      \<and> nextHandle (time single_over) = 4 \<and> resetTimeoutDuration single_over = 1500"
    by (simp add: single_over_def single_started_def fresh_scene_def env0_def serve_body_def
        model_defs)
  from no_reset_timer_while_game_over [OF reachable_single_over, of Frame_hit] g
  show ?thesis
    by simp
qed

text \<open>The claim as the spec states it fails after a restart: the game is over, the
  restart button starts the countdown, the paddle meets the ball that is still in the
  scene, and the reset timer is pending again; it fires during the countdown and takes a
  life, and no ball has been added.\<close>

theorem reset_timer_before_addBall_counterexample:
  "reachable (run [RestartButtonPressed, Frame_hit, TimeoutFired 5] single_over)
   \<and> state (config single_over) = GAME_OVER
   \<and> timeouts (time single_over) = []
   \<and> state (config (run [RestartButtonPressed, Frame_hit] single_over)) = COUNTDOWN
   \<and> timeouts (time (run [RestartButtonPressed, Frame_hit] single_over)) = [(5, 1500)]
   \<and> lives (score (run [RestartButtonPressed, Frame_hit] single_over)) = 3
   \<and> lives (score (run [RestartButtonPressed, Frame_hit, TimeoutFired 5] single_over)) = 2
   \<and> state (config (run [RestartButtonPressed, Frame_hit, TimeoutFired 5] single_over))
       = COUNTDOWN"
proof -
  have "reachable (run [RestartButtonPressed, Frame_hit, TimeoutFired 5] single_over)"
    by (rule reachable_run [OF reachable_single_over])
  moreover have "state (config single_over) = GAME_OVER
   \<and> timeouts (time single_over) = []
   \<and> state (config (run [RestartButtonPressed, Frame_hit] single_over)) = COUNTDOWN
   \<and> timeouts (time (run [RestartButtonPressed, Frame_hit] single_over)) = [(5, 1500)]
   \<and> lives (score (run [RestartButtonPressed, Frame_hit] single_over)) = 3
   \<and> lives (score (run [RestartButtonPressed, Frame_hit, TimeoutFired 5] single_over)) = 2
   \<and> state (config (run [RestartButtonPressed, Frame_hit, TimeoutFired 5] single_over))
       = COUNTDOWN"
    by (simp add: single_over_def single_started_def fresh_scene_def env0_def serve_body_def
        model_defs length_v_axis)
  ultimately show ?thesis by simp
qed

section \<open>The best rally\<close>

text \<open>
  C10. No event other than a restart lowers \<open>score.highest\<close>: under every frame,
  tick, message, timer and mode change it stays or grows. The two restart events run
  \<^verbatim>\<open>resetScore\<close>, which sets it to 0. The singleplayer reset timeout sets it to the
  maximum of \<open>score.self\<close> and its old value, and \<open>score.self\<close> to 0.
\<close>

theorem highest_only_lowered_by_resetScore:
  "(e \<noteq> RestartButtonPressed \<and> e \<noteq> ReceivedRestartGame
      \<longrightarrow> highest (score s) \<le> highest (score (step e s)))
   \<and> (e = RestartButtonPressed \<or> e = ReceivedRestartGame
      \<longrightarrow> highest (score (step e s)) = highest (score (resetScore s)))
   \<and> highest (score (resetScore s)) = 0
   \<and> (mode (config s) = SINGLEPLAYER
      \<longrightarrow> highest (score (state_of (resetTimeoutEnded s)))
            = max (self (score s)) (highest (score s))
        \<and> self (score (state_of (resetTimeoutEnded s))) = 0)"
proof -
  have "highest (score s) \<le> highest (score (step e s))"
    if "e \<noteq> RestartButtonPressed" and "e \<noteq> ReceivedRestartGame"
  proof (cases e)
    case Frame_hit
    with score_animate_hit [of s] show ?thesis
      by (auto simp add: step_def)
  next
    case (ReceivedMiss d)
    then show ?thesis
      by (simp add: step_def score_onReceivedMiss)
  next
    case (TimeoutFired h)
    then show ?thesis
      by (simp add: step_def highest_fireTimeout)
  qed (use that in \<open>simp_all add: step_def score_frames score_animate_physics
        score_onBallTableCollision score_onReceivedRequestCountdown score_startGame
        score_fireInterval setMultiplayer_def setSingleplayer_def\<close>)
  moreover have "highest (score (step e s)) = highest (score (resetScore s))"
    if "e = RestartButtonPressed \<or> e = ReceivedRestartGame"
    using that
    by (auto simp add: step_def onRestartButtonPressed_def onReceivedRestartGame_def
        highest_restartGame resetScore_def)
  moreover have "highest (score (resetScore s)) = 0"
    by (simp add: resetScore_def)
  moreover have "highest (score (state_of (resetTimeoutEnded s)))
            = max (self (score s)) (highest (score s))
        \<and> self (score (state_of (resetTimeoutEnded s))) = 0"
    if "mode (config s) = SINGLEPLAYER"
    using that by (simp add: score_resetTimeoutEnded_single)
  ultimately show ?thesis by blast
qed

text \<open>The rally of five replaces the best rally of two when the ball is lost; a restart
  sets the best rally to 0.\<close>

theorem highest_only_lowered_by_resetScore_witness:
  "highest (score single_rally) \<le> highest (score (step (TimeoutFired 1) single_rally))
   \<and> highest (score (state_of (resetTimeoutEnded single_rally))) = 5
   \<and> self (score (state_of (resetTimeoutEnded single_rally))) = 0
   \<and> highest (score (step RestartButtonPressed single_rally)) = 0"
proof -
  have a: "TimeoutFired 1 \<noteq> RestartButtonPressed \<and> TimeoutFired 1 \<noteq> ReceivedRestartGame"
    by simp
  have b: "mode (config single_rally) = SINGLEPLAYER
      \<and> self (score single_rally) = 5 \<and> highest (score single_rally) = 2"
    by (simp add: single_rally_def single_started_def fresh_scene_def env0_def serve_body_def
        model_defs)
  from highest_only_lowered_by_resetScore [of "TimeoutFired 1" single_rally]
    highest_only_lowered_by_resetScore [of RestartButtonPressed single_rally] a b
  show ?thesis
    by simp
qed

end
